theory Spec2Isabelle
  imports Complex_Main
begin

text \<open>
  A model of the simulation engine of CourierQuest (\<open>api v2.py\<close>): the order queue, the
  undo history, the save files, movement and stamina, delivery and reputation, the
  release and the expiry of orders, and the tick. Each definition follows the source
  function of the same name; the properties proved of them come after the
  definitions.
\<close>

section \<open>Data model\<close>

text \<open>
  The dataclasses of the source. Python floats are modelled as exact reals (rounding
  and overflow of floating-point numbers are left out) and Python integers as unbounded
  integers. The field \<open>id\<close> of an order is called \<open>order_id\<close>,
  the coordinates \<open>x\<close> and \<open>y\<close> of a position are \<open>pos_x\<close> and \<open>pos_y\<close>. The status of an
  order is one of the five strings the program writes into it.
\<close>

datatype Position = Position (pos_x: int) (pos_y: int)

datatype order_status = waiting_release | available | accepted | picked_up | delivered

record Order =
  order_id :: string
  pickup :: Position
  dropoff :: Position
  payout :: int
  duration_minutes :: real
  weight :: int
  priority :: int
  release_time :: int
  status :: order_status
  created_at :: real
  accepted_at :: real

text \<open>
  The nine weather conditions (the keys of \<open>TRANSITION_MATRIX\<close>), and the entries of the
  map legend: a dictionary that may hold the keys \<open>name\<close>, \<open>surface_weight\<close>, \<open>blocked\<close>
  and \<open>rest_bonus\<close>; a field is \<open>None\<close> when the key is absent, so the empty dictionary
  is \<open>empty_tile_info\<close>.
\<close>

datatype condition = Clear | Clouds | Rain_light | Rain | Storm | Fog | Wind | Heat | Cold

record tile_info =
  tile_name :: "string option"
  surface_weight :: "real option"
  blocked :: "bool option"
  rest_bonus :: "real option"

definition empty_tile_info :: tile_info where
  "empty_tile_info = \<lparr>tile_name = None, surface_weight = None, blocked = None, rest_bonus = None\<rparr>"

text \<open>The dataclass \<open>GameState\<close>; its field \<open>f\<close> is \<open>gs_f\<close> here.\<close>

record GameState =
  gs_player_pos :: Position
  gs_stamina :: real
  gs_reputation :: int
  gs_money :: int
  gs_game_time :: real
  gs_weather_time :: real
  gs_current_weather :: condition
  gs_weather_intensity :: real
  gs_inventory :: "Order list"
  gs_available_orders :: "Order list"
  gs_completed_orders :: "Order list"
  gs_goal :: int
  gs_delivery_streak :: int
  gs_pending_orders :: "Order list"
  gs_city_width :: int
  gs_city_height :: int
  gs_tiles :: "string list list"
  gs_legend :: "string \<rightharpoonup> tile_info"
  gs_city_name :: string
  gs_max_game_time :: real

text \<open>Exceptions of the Python program that the model makes explicit.\<close>

datatype py_error = IndexError | ValueError | AttributeError | ZeroDivisionError | OverflowError

definition bind_err :: "py_error + 'a \<Rightarrow> ('a \<Rightarrow> py_error + 'b) \<Rightarrow> py_error + 'b" where
  "bind_err m f = (case m of Inl e \<Rightarrow> Inl e | Inr v \<Rightarrow> f v)"

section \<open>OptimizedPriorityQueue\<close>

text \<open>
  The queue is its list \<open>items\<close>. \<open>enqueue_loop\<close> is the binary search of \<open>enqueue\<close>
  (the \<open>while left < right\<close> loop); every index it reads lies below \<open>right\<close>, which
  starts at the length of the list.
\<close>

function enqueue_loop :: "Order list \<Rightarrow> Order \<Rightarrow> nat \<Rightarrow> nat \<Rightarrow> nat" where
  "enqueue_loop items item left right =
     (if left < right then
        (if priority (items ! ((left + right) div 2)) < priority item
         then enqueue_loop items item left ((left + right) div 2)
         else enqueue_loop items item ((left + right) div 2 + 1) right)
      else left)"
  by pat_completeness auto
termination
  by (relation "measure (\<lambda>(items, item, left, right). right - left)") auto

declare enqueue_loop.simps [simp del]

definition enqueue :: "Order list \<Rightarrow> Order \<Rightarrow> Order list" where
  "enqueue items item =
     (if items = [] then items @ [item]
      else (let left = enqueue_loop items item 0 (length items)
            in take left items @ item # drop left items))"

definition dequeue :: "Order list \<Rightarrow> Order option \<times> Order list" where
  "dequeue items = (case items of [] \<Rightarrow> (None, []) | x # rest \<Rightarrow> (Some x, rest))"

definition size_pq :: "Order list \<Rightarrow> nat" where
  "size_pq items = length items"

text \<open>\<open>list.remove\<close> deletes the first element equal to the order; the \<open>ValueError\<close>
  of a missing element is caught and reported as \<open>False\<close>.\<close>

definition remove_pq :: "Order list \<Rightarrow> Order \<Rightarrow> bool \<times> Order list" where
  "remove_pq items order =
     (if order \<in> set items then (True, remove1 order items) else (False, items))"

text \<open>Sequences of queue operations, run from the empty queue of \<open>__init__\<close>.\<close>

datatype pq_op = Enqueue Order | Dequeue | Remove Order

fun apply_pq_op :: "Order list \<Rightarrow> pq_op \<Rightarrow> Order list" where
  "apply_pq_op items (Enqueue item) = enqueue items item"
| "apply_pq_op items Dequeue = snd (dequeue items)"
| "apply_pq_op items (Remove order) = snd (remove_pq items order)"

definition run_pq :: "pq_op list \<Rightarrow> Order list" where
  "run_pq ops = foldl apply_pq_op [] ops"

definition sorted_desc :: "Order list \<Rightarrow> bool" where
  "sorted_desc items = sorted_wrt (\<lambda>a b. priority b \<le> priority a) items"

section \<open>MemoryEfficientHistory\<close>

text \<open>
  A diff is a dictionary with the optional keys \<open>player_pos\<close>, \<open>stamina\<close>, \<open>money\<close> and
  \<open>reputation\<close>. \<open>push\<close> stores the first state as the base; later states are compared
  with the base. After an append the oldest diff is dropped when the length has reached
  \<open>max_size\<close>. \<open>pop\<close> returns \<open>None\<close> on an empty list of diffs; reading the base of a
  history that has diffs but no base would raise \<open>AttributeError\<close>.
\<close>

record diff =
  d_player_pos :: "(int \<times> int) option"
  d_stamina :: "real option"
  d_money :: "int option"
  d_reputation :: "int option"

definition empty_diff :: diff where
  "empty_diff = \<lparr>d_player_pos = None, d_stamina = None, d_money = None, d_reputation = None\<rparr>"

record history =
  diffs :: "diff list"
  max_size :: int
  base_state :: "GameState option"

definition init_history :: history where
  "init_history = \<lparr>diffs = [], max_size = 20, base_state = None\<rparr>"

definition make_diff :: "GameState \<Rightarrow> GameState \<Rightarrow> diff" where
  "make_diff base state =
     \<lparr>d_player_pos =
        (if pos_x (gs_player_pos base) \<noteq> pos_x (gs_player_pos state) \<or>
            pos_y (gs_player_pos base) \<noteq> pos_y (gs_player_pos state)
         then Some (pos_x (gs_player_pos state), pos_y (gs_player_pos state)) else None),
      d_stamina =
        (if \<bar>gs_stamina base - gs_stamina state\<bar> > 1.0 then Some (gs_stamina state) else None),
      d_money = (if gs_money base \<noteq> gs_money state then Some (gs_money state) else None),
      d_reputation =
        (if gs_reputation base \<noteq> gs_reputation state then Some (gs_reputation state) else None)\<rparr>"

definition push :: "history \<Rightarrow> GameState \<Rightarrow> history" where
  "push h state =
     (case base_state h of
        None \<Rightarrow> h\<lparr>base_state := Some state\<rparr>
      | Some base \<Rightarrow>
          (let d = make_diff base state in
           if d \<noteq> empty_diff then
             (let ds = diffs h @ [d] in
              h\<lparr>diffs := (if int (length ds) \<ge> max_size h then tl ds else ds)\<rparr>)
           else h))"

definition pop :: "history \<Rightarrow> py_error + (GameState option \<times> history)" where
  "pop h =
     (if diffs h = [] then Inr (None, h)
      else
        (case base_state h of
           None \<Rightarrow> Inl AttributeError
         | Some base \<Rightarrow>
             (let d = last (diffs h);
                  xy = (case d_player_pos d of
                          None \<Rightarrow> (pos_x (gs_player_pos base), pos_y (gs_player_pos base))
                        | Some p \<Rightarrow> p);
                  new_state = \<lparr>
                    gs_player_pos = Position (fst xy) (snd xy),
                    gs_stamina = (case d_stamina d of None \<Rightarrow> gs_stamina base | Some v \<Rightarrow> v),
                    gs_reputation = (case d_reputation d of None \<Rightarrow> gs_reputation base | Some v \<Rightarrow> v),
                    gs_money = (case d_money d of None \<Rightarrow> gs_money base | Some v \<Rightarrow> v),
                    gs_game_time = gs_game_time base,
                    gs_weather_time = gs_weather_time base,
                    gs_current_weather = gs_current_weather base,
                    gs_weather_intensity = gs_weather_intensity base,
                    gs_inventory = gs_inventory base,
                    gs_available_orders = gs_available_orders base,
                    gs_completed_orders = gs_completed_orders base,
                    gs_goal = gs_goal base,
                    gs_delivery_streak = 0,
                    gs_pending_orders = gs_pending_orders base,
                    gs_city_width = gs_city_width base,
                    gs_city_height = gs_city_height base,
                    gs_tiles = gs_tiles base,
                    gs_legend = gs_legend base,
                    gs_city_name = gs_city_name base,
                    gs_max_game_time = gs_max_game_time base\<rparr>
              in Inr (Some new_state, h\<lparr>diffs := butlast (diffs h)\<rparr>))))"

definition size_hist :: "history \<Rightarrow> nat" where
  "size_hist h = length (diffs h)"

text \<open>Sequences of history operations, run from the history of \<open>__init__\<close>; a \<open>pop\<close>
  that raises ends the run.\<close>

datatype hist_op = Push GameState | Pop

fun run_history :: "history \<Rightarrow> hist_op list \<Rightarrow> py_error + history" where
  "run_history h [] = Inr h"
| "run_history h (Push state # ops) = run_history (push h state) ops"
| "run_history h (Pop # ops) = bind_err (pop h) (\<lambda>r. run_history (snd r) ops)"

text \<open>The invariant of the histories reachable from \<open>init_history\<close>.\<close>

definition hist_inv :: "history \<Rightarrow> bool" where
  "hist_inv h =
     (max_size h = 20 \<and> length (diffs h) < 20 \<and> (diffs h \<noteq> [] \<longrightarrow> base_state h \<noteq> None))"

section \<open>RobustFileManager\<close>

text \<open>
  The save directory is a map from slot numbers to files. What a file holds is what
  \<open>pickle.load\<close> makes of it: a dictionary, some other object, or nothing because the
  file cannot be unpickled; \<open>pickle\<close> is taken to return on load the object it was given
  on dump. Of a dictionary the four entries that the file manager writes and reads are
  kept, each present or absent. The entry \<open>game_state\<close> is a \<open>GameState\<close> object or
  \<open>Old_state_object\<close>, an object without the attribute \<open>city_width\<close> or \<open>city_height\<close>. Of
  the faults of the disk one is modelled: on a write-protected file \<open>open\<close> raises and
  the file stays as it was. The time stamps are inputs.
\<close>

record save_metadata =
  saved_at :: string
  md_game_time :: real
  player_position :: "int \<times> int"
  completion_percentage :: real
  city_info :: string

datatype state_object = State_object GameState | Old_state_object

record pickled_dict =
  entry_version :: "string option"
  entry_timestamp :: "real option"
  entry_game_state :: "state_object option"
  entry_metadata :: "save_metadata option"

datatype file_content = Pickled pickled_dict | Pickled_other | Unreadable

record save_file =
  content :: file_content
  write_protected :: bool

type_synonym saves = "int \<rightharpoonup> save_file"

fun str_nat :: "nat \<Rightarrow> string" where
  "str_nat n =
     (if n < 10 then [''0123456789'' ! n]
      else str_nat (n div 10) @ [''0123456789'' ! (n mod 10)])"

declare str_nat.simps [simp del]

definition str_int :: "int \<Rightarrow> string" where
  "str_int i = (if i < 0 then CHR ''-'' # str_nat (nat (- i)) else str_nat (nat i))"

text \<open>
  \<open>money / goal\<close> divides two Python integers: a zero divisor raises
  \<open>ZeroDivisionError\<close>, and a quotient that rounds to no finite double raises
  \<open>OverflowError\<close>. The quotients that round to a finite double are those below
  \<open>2 ^ 1024 - 2 ^ 970\<close> in absolute value, half way from the largest double to
  \<open>2 ^ 1024\<close>.
\<close>

definition overflows_float :: "real \<Rightarrow> bool" where
  "overflows_float q = (2 ^ 1024 - 2 ^ 970 \<le> \<bar>q\<bar>)"

definition true_div :: "int \<Rightarrow> int \<Rightarrow> py_error + real" where
  "true_div a b =
     (if b = 0 then Inl ZeroDivisionError
      else if overflows_float (real_of_int a / real_of_int b) then Inl OverflowError
      else Inr (real_of_int a / real_of_int b))"

definition can_open_for_writing :: "saves \<Rightarrow> int \<Rightarrow> bool" where
  "can_open_for_writing fs slot =
     (case fs slot of None \<Rightarrow> True | Some f \<Rightarrow> \<not> write_protected f)"

text \<open>
  \<open>save_game_with_validation\<close> builds the dictionary, which divides, then opens the file
  and dumps. Its \<open>except\<close> clause turns every exception into the result \<open>False\<close>.
\<close>

definition save_game_with_validation ::
  "saves \<Rightarrow> GameState \<Rightarrow> int \<Rightarrow> real \<Rightarrow> string \<Rightarrow> bool \<times> saves" where
  "save_game_with_validation fs gs slot now now_iso =
     (case true_div (gs_money gs) (gs_goal gs) of
        Inl e \<Rightarrow> (False, fs)
      | Inr q \<Rightarrow>
          if \<not> can_open_for_writing fs slot then (False, fs)
          else
            (True, fs(slot \<mapsto> \<lparr>content = Pickled \<lparr>
               entry_version = Some ''3.1_map_fixed'',
               entry_timestamp = Some now,
               entry_game_state = Some (State_object gs),
               entry_metadata = Some \<lparr>
                 saved_at = now_iso,
                 md_game_time = gs_game_time gs,
                 player_position = (pos_x (gs_player_pos gs), pos_y (gs_player_pos gs)),
                 completion_percentage = q * 100,
                 city_info = gs_city_name gs @ '' ('' @ str_int (gs_city_width gs) @ ''x'' @
                             str_int (gs_city_height gs) @ '')''\<rparr>\<rparr>,
               write_protected = False\<rparr>)))"

text \<open>
  \<open>load_game_with_validation\<close> returns \<open>None\<close> when there is no file, when unpickling
  raises, when the object is no dictionary, when the dictionary has no entry
  \<open>game_state\<close> (a \<open>KeyError\<close>, caught), and when the state lacks the map attributes.
\<close>

definition load_game_with_validation :: "saves \<Rightarrow> int \<Rightarrow> GameState option" where
  "load_game_with_validation fs slot =
     (case fs slot of
        None \<Rightarrow> None
      | Some f \<Rightarrow>
          (case content f of
             Unreadable \<Rightarrow> None
           | Pickled_other \<Rightarrow> None
           | Pickled d \<Rightarrow>
               (case entry_game_state d of
                  None \<Rightarrow> None
                | Some Old_state_object \<Rightarrow> None
                | Some (State_object state) \<Rightarrow> Some state)))"

text \<open>
  \<open>get_save_info\<close> returns the entry \<open>metadata\<close> of any pickled dictionary that has one,
  whatever the rest of the dictionary. On an object that is no dictionary the
  membership test or the subscript raises, and the result is \<open>None\<close>.
\<close>

definition get_save_info :: "saves \<Rightarrow> int \<Rightarrow> save_metadata option" where
  "get_save_info fs slot =
     (case fs slot of
        None \<Rightarrow> None
      | Some f \<Rightarrow>
          (case content f of
             Unreadable \<Rightarrow> None
           | Pickled_other \<Rightarrow> None
           | Pickled d \<Rightarrow> entry_metadata d))"

section \<open>EnhancedWeatherSystem\<close>

text \<open>
  The fields of the weather system that the movement rules read. The wall clock
  (\<open>time.time()\<close>) is an input \<open>now\<close>. \<open>transition_duration\<close> is set once, to 3.0.
\<close>

record weather =
  current_condition :: condition
  current_intensity :: real
  time_in_current :: real
  burst_duration :: int
  transitioning :: bool
  transition_start_time :: real
  previous_condition :: condition
  previous_intensity :: real
  target_condition :: condition
  target_intensity :: real

definition transition_duration :: real where
  "transition_duration = 3.0"

fun SPEED_MULTIPLIERS :: "condition \<Rightarrow> real" where
  "SPEED_MULTIPLIERS Clear = 1.00"
| "SPEED_MULTIPLIERS Clouds = 0.98"
| "SPEED_MULTIPLIERS Rain_light = 0.90"
| "SPEED_MULTIPLIERS Rain = 0.85"
| "SPEED_MULTIPLIERS Storm = 0.75"
| "SPEED_MULTIPLIERS Fog = 0.88"
| "SPEED_MULTIPLIERS Wind = 0.92"
| "SPEED_MULTIPLIERS Heat = 0.90"
| "SPEED_MULTIPLIERS Cold = 0.92"

definition get_speed_multiplier :: "weather \<Rightarrow> real \<Rightarrow> real" where
  "get_speed_multiplier w now =
     (let base_mult =
        (if transitioning w then
           (let elapsed_transition = now - transition_start_time w;
                progress = min 1.0 (elapsed_transition / transition_duration);
                smooth_progress = (1 - cos (progress * pi)) / 2;
                prev_mult = SPEED_MULTIPLIERS (previous_condition w);
                target_mult = SPEED_MULTIPLIERS (target_condition w)
            in prev_mult + (target_mult - prev_mult) * smooth_progress)
         else SPEED_MULTIPLIERS (current_condition w))
      in base_mult * (1.0 - (current_intensity w * 0.2)))"

text \<open>
  The random draws and the clock that one call of \<open>update\<close> may read: the value of
  \<open>random()\<close> inside \<open>random.choices\<close>, the value of \<open>random()\<close> inside
  \<open>random.uniform\<close>, the result of \<open>random.randint(25, 40)\<close>, and \<open>time.time()\<close>.
  \<open>choices\<close> is \<open>random.choices(conditions, weights)[0]\<close>: the index is found by
  bisection in the cumulative weights but the last.
\<close>

record env =
  wall_clock :: real
  rand_choice :: real
  rand_uniform :: real
  rand_burst :: int

fun TRANSITION_MATRIX :: "condition \<Rightarrow> (condition \<times> real) list" where
  "TRANSITION_MATRIX Clear = [(Clear, 0.4), (Clouds, 0.3), (Wind, 0.2), (Heat, 0.1)]"
| "TRANSITION_MATRIX Clouds = [(Clear, 0.2), (Clouds, 0.3), (Rain_light, 0.3), (Fog, 0.2)]"
| "TRANSITION_MATRIX Rain_light = [(Clouds, 0.3), (Rain_light, 0.2), (Rain, 0.3), (Clear, 0.2)]"
| "TRANSITION_MATRIX Rain = [(Rain_light, 0.3), (Rain, 0.2), (Storm, 0.2), (Clouds, 0.3)]"
| "TRANSITION_MATRIX Storm = [(Rain, 0.4), (Storm, 0.2), (Clouds, 0.4)]"
| "TRANSITION_MATRIX Fog = [(Fog, 0.3), (Clouds, 0.4), (Clear, 0.3)]"
| "TRANSITION_MATRIX Wind = [(Wind, 0.2), (Clear, 0.3), (Clouds, 0.3), (Cold, 0.2)]"
| "TRANSITION_MATRIX Heat = [(Heat, 0.3), (Clear, 0.4), (Clouds, 0.3)]"
| "TRANSITION_MATRIX Cold = [(Cold, 0.3), (Clear, 0.2), (Clouds, 0.3), (Wind, 0.2)]"

fun accumulate :: "real \<Rightarrow> real list \<Rightarrow> real list" where
  "accumulate acc [] = []"
| "accumulate acc (w # ws) = (acc + w) # accumulate (acc + w) ws"

definition choices :: "(condition \<times> real) list \<Rightarrow> real \<Rightarrow> condition" where
  "choices row u =
     (let cum_weights = accumulate 0 (map snd row);
          total = last cum_weights;
          i = length (takeWhile (\<lambda>c. c \<le> u * total) (butlast cum_weights))
      in fst (row ! i))"

definition initiate_weather_change :: "weather \<Rightarrow> env \<Rightarrow> weather" where
  "initiate_weather_change w e =
     (let new_condition = choices (TRANSITION_MATRIX (current_condition w)) (rand_choice e);
          new_intensity = 0.4 + (0.9 - 0.4) * rand_uniform e
      in w\<lparr>transitioning := True,
            transition_start_time := wall_clock e,
            previous_condition := current_condition w,
            previous_intensity := current_intensity w,
            target_condition := new_condition,
            target_intensity := new_intensity,
            time_in_current := 0,
            burst_duration := rand_burst e\<rparr>)"

definition weather_update :: "weather \<Rightarrow> real \<Rightarrow> env \<Rightarrow> weather" where
  "weather_update w dt e =
     (let w1 = w\<lparr>time_in_current := time_in_current w + dt\<rparr>;
          w2 = (if transitioning w1 then
                  (let elapsed_transition = wall_clock e - transition_start_time w1;
                       progress = min 1.0 (elapsed_transition / transition_duration);
                       smooth_progress = (1 - cos (progress * pi)) / 2;
                       w' = w1\<lparr>current_intensity :=
                              previous_intensity w1 +
                              (target_intensity w1 - previous_intensity w1) * smooth_progress\<rparr>
                   in if progress \<ge> 1.0
                      then w'\<lparr>transitioning := False,
                              current_condition := target_condition w',
                              current_intensity := target_intensity w'\<rparr>
                      else w')
                else w1)
      in if time_in_current w2 \<ge> real_of_int (burst_duration w2) \<and> \<not> transitioning w2
         then initiate_weather_change w2 e else w2)"

definition init_weather :: weather where
  "init_weather = \<lparr>current_condition = Clear, current_intensity = 0.5, time_in_current = 0,
     burst_duration = 30, transitioning = False, transition_start_time = 0,
     previous_condition = Clear, previous_intensity = 0.5, target_condition = Clear,
     target_intensity = 0.5\<rparr>"

section \<open>CourierQuest: the engine state\<close>

text \<open>
  The fields of the game object that the rules below read or write. Messages, fonts
  and images are presentation and are left out. \<open>first_late_penalty_applied\<close> is the
  attribute \<open>_first_late_penalty_applied\<close>, whose presence the program tests with
  \<open>hasattr\<close>; \<open>last_history_save\<close> is \<open>_last_history_save\<close>, read with the default 0. A method
  \<open>_m\<close> of the source is \<open>m\<close> here, and \<open>load_game\<close> is \<open>_load_game\<close>. \<open>available_orders\<close> is the item list of the priority queue. The attributes
  \<open>base_speed\<close>, \<open>max_stamina\<close>, \<open>max_weight\<close> and \<open>move_cooldown\<close> are assigned once, in
  \<open>__init__\<close>, and are constants here.
\<close>

datatype game_mode = Menu | Playing | Tutorial

record CourierQuest =
  game_state :: game_mode
  paused :: bool
  game_over :: bool
  victory :: bool
  city_width :: int
  city_height :: int
  tiles :: "string list list"
  legend :: "string \<rightharpoonup> tile_info"
  goal :: int
  city_name :: string
  max_game_time :: real
  player_pos :: Position
  stamina :: real
  reputation :: int
  money :: int
  game_time :: real
  pending_orders :: "Order list"
  available_orders :: "Order list"
  inventory :: "Order list"
  completed_orders :: "Order list"
  delivery_streak :: int
  last_delivery_was_clean :: bool
  last_move_time :: real
  weather_system :: weather
  history :: history
  first_late_penalty_applied :: bool
  last_history_save :: real

definition base_speed :: real where "base_speed = 3.0"
definition max_stamina :: real where "max_stamina = 100.0"
definition max_weight :: int where "max_weight = 10"
definition move_cooldown :: real where "move_cooldown = 0.08"

subsection \<open>Reading the map\<close>

text \<open>
  \<open>py_index\<close> is Python's list indexing: a negative index counts from the end, an index
  out of range raises \<open>IndexError\<close>. \<open>legend_get\<close> is \<open>legend.get(tile_type, {})\<close>;
  \<open>get_blocked\<close>, \<open>get_surface_weight\<close> and \<open>get_rest_bonus\<close> are the \<open>get\<close> calls with their
  defaults.
\<close>

definition py_index :: "'a list \<Rightarrow> int \<Rightarrow> py_error + 'a" where
  "py_index xs i =
     (let n = int (length xs) in
      if 0 \<le> i \<and> i < n then Inr (xs ! nat i)
      else if - n \<le> i \<and> i < 0 then Inr (xs ! nat (n + i))
      else Inl IndexError)"

definition legend_get :: "(string \<rightharpoonup> tile_info) \<Rightarrow> string \<Rightarrow> tile_info" where
  "legend_get lg tile_type = (case lg tile_type of None \<Rightarrow> empty_tile_info | Some ti \<Rightarrow> ti)"

definition get_blocked :: "tile_info \<Rightarrow> bool" where
  "get_blocked ti = (case blocked ti of None \<Rightarrow> False | Some b \<Rightarrow> b)"

definition get_surface_weight :: "tile_info \<Rightarrow> real" where
  "get_surface_weight ti = (case surface_weight ti of None \<Rightarrow> 1.0 | Some v \<Rightarrow> v)"

definition get_rest_bonus :: "tile_info \<Rightarrow> real" where
  "get_rest_bonus ti = (case rest_bonus ti of None \<Rightarrow> 0 | Some v \<Rightarrow> v)"

text \<open>
  The tile under the player, as \<open>calculate_actual_speed\<close>, \<open>calculate_stamina_cost\<close> and
  \<open>_get_stamina_recovery_rate\<close> read it: the guard
  \<open>player_pos.y < len(tiles) and player_pos.x < len(tiles[player_pos.y])\<close>, then
  \<open>tiles[y][x]\<close> and the legend entry. \<open>None\<close> means the guard was false.
\<close>

definition current_tile_info :: "CourierQuest \<Rightarrow> py_error + tile_info option" where
  "current_tile_info g =
     (let px = pos_x (player_pos g); py = pos_y (player_pos g) in
      if py < int (length (tiles g)) then
        bind_err (py_index (tiles g) py) (\<lambda>row.
          if px < int (length row) then
            bind_err (py_index row px) (\<lambda>tile_type.
              Inr (Some (legend_get (legend g) tile_type)))
          else Inr None)
      else Inr None)"

text \<open>
  \<open>_is_position_walkable\<close> checks the bounds first, so below that check both indices are
  non-negative and the list reads are plain reads.
\<close>

definition is_position_walkable :: "CourierQuest \<Rightarrow> int \<Rightarrow> int \<Rightarrow> bool" where
  "is_position_walkable g px py =
     (if \<not> (0 \<le> px \<and> px < city_width g \<and> 0 \<le> py \<and> py < city_height g) then False
      else if py < int (length (tiles g)) \<and> px < int (length (tiles g ! nat py)) then
        \<not> get_blocked (legend_get (legend g) (tiles g ! nat py ! nat px))
      else True)"

text \<open>Notions the properties below speak of, for a cell with non-negative coordinates:
  whether it lies on the board, whether its tile is marked blocked, and the surface
  weight of its tile (1.0 where the tile list has no entry).\<close>

definition in_bounds :: "CourierQuest \<Rightarrow> Position \<Rightarrow> bool" where
  "in_bounds g pos =
     (0 \<le> pos_x pos \<and> pos_x pos < city_width g \<and> 0 \<le> pos_y pos \<and> pos_y pos < city_height g)"

definition tile_at :: "CourierQuest \<Rightarrow> Position \<Rightarrow> tile_info option" where
  "tile_at g pos =
     (if nat (pos_y pos) < length (tiles g) \<and> nat (pos_x pos) < length (tiles g ! nat (pos_y pos))
      then Some (legend_get (legend g) (tiles g ! nat (pos_y pos) ! nat (pos_x pos)))
      else None)"

definition tile_blocked :: "CourierQuest \<Rightarrow> Position \<Rightarrow> bool" where
  "tile_blocked g pos = (case tile_at g pos of None \<Rightarrow> False | Some info \<Rightarrow> blocked info = Some True)"

definition tile_surface_weight :: "CourierQuest \<Rightarrow> Position \<Rightarrow> real" where
  "tile_surface_weight g pos =
     (case tile_at g pos of
        None \<Rightarrow> 1
      | Some info \<Rightarrow> (case surface_weight info of None \<Rightarrow> 1 | Some v \<Rightarrow> v))"

definition validate_order_positions :: "CourierQuest \<Rightarrow> Order \<Rightarrow> bool" where
  "validate_order_positions g order =
     (is_position_walkable g (pos_x (pickup order)) (pos_y (pickup order)) \<and>
      is_position_walkable g (pos_x (dropoff order)) (pos_y (dropoff order)))"

text \<open>The positions \<open>_find_nearest_walkable_position\<close> tries, in its order: the border
  of each square of radius 1, 2, ... below \<open>min(width, height) // 2\<close>, then every cell of
  the map row by row, then (1, 1).\<close>

definition ring_candidates :: "CourierQuest \<Rightarrow> int \<Rightarrow> int \<Rightarrow> (int \<times> int) list" where
  "ring_candidates g px py =
     concat (map (\<lambda>radius.
       concat (map (\<lambda>dx.
         concat (map (\<lambda>dy.
           if \<bar>dx\<bar> = radius \<or> \<bar>dy\<bar> = radius then [(px + dx, py + dy)] else [])
           [- radius .. radius]))
         [- radius .. radius]))
       [1 .. min (city_width g) (city_height g) div 2 - 1])"

definition all_cells :: "CourierQuest \<Rightarrow> (int \<times> int) list" where
  "all_cells g =
     concat (map (\<lambda>ty. map (\<lambda>tx. (tx, ty)) [0 .. city_width g - 1]) [0 .. city_height g - 1])"

definition find_nearest_walkable_position :: "CourierQuest \<Rightarrow> int \<Rightarrow> int \<Rightarrow> Position" where
  "find_nearest_walkable_position g px py =
     (case find (\<lambda>(nx, ny). is_position_walkable g nx ny) (ring_candidates g px py) of
        Some (nx, ny) \<Rightarrow> Position nx ny
      | None \<Rightarrow>
          (case find (\<lambda>(tx, ty). is_position_walkable g tx ty) (all_cells g) of
             Some (tx, ty) \<Rightarrow> Position tx ty
           | None \<Rightarrow> Position 1 1))"

definition fix_order_positions :: "CourierQuest \<Rightarrow> Order \<Rightarrow> Order" where
  "fix_order_positions g order =
     (let order1 =
        (if \<not> is_position_walkable g (pos_x (pickup order)) (pos_y (pickup order))
         then order\<lparr>pickup := find_nearest_walkable_position g (pos_x (pickup order))
                                  (pos_y (pickup order))\<rparr>
         else order)
      in if \<not> is_position_walkable g (pos_x (dropoff order1)) (pos_y (dropoff order1))
         then order1\<lparr>dropoff := find_nearest_walkable_position g (pos_x (dropoff order1))
                                    (pos_y (dropoff order1))\<rparr>
         else order1)"

subsection \<open>Time remaining\<close>

definition get_order_time_remaining :: "CourierQuest \<Rightarrow> Order \<Rightarrow> real" where
  "get_order_time_remaining g order =
     (if status order = waiting_release then duration_minutes order * 60
      else
        (let elapsed_since_created = game_time g - created_at order;
             total_duration_seconds = duration_minutes order * 60
         in max 0 (total_duration_seconds - elapsed_since_created)))"

subsection \<open>Movement\<close>

definition total_weight :: "CourierQuest \<Rightarrow> int" where
  "total_weight g = sum_list (map weight (inventory g))"

definition calculate_stamina_cost :: "CourierQuest \<Rightarrow> py_error + real" where
  "calculate_stamina_cost g =
     (let base_cost = 0.5;
          base_cost = (if total_weight g > 3
                       then base_cost + 0.2 * real_of_int (total_weight g - 3) else base_cost);
          c = current_condition (weather_system g);
          base_cost = (if c = Rain \<or> c = Wind then base_cost + 0.1
                       else if c = Storm then base_cost + 0.3
                       else if c = Heat then base_cost + 0.2
                       else base_cost)
      in bind_err (current_tile_info g) (\<lambda>here.
           case here of
             None \<Rightarrow> Inr base_cost
           | Some info \<Rightarrow>
               (if get_surface_weight info < 1.0
                then Inr (base_cost + (1.0 - get_surface_weight info) * 0.2)
                else Inr base_cost)))"

definition calculate_actual_speed :: "CourierQuest \<Rightarrow> real \<Rightarrow> py_error + real" where
  "calculate_actual_speed g now =
     (if stamina g \<le> 0 then Inr 0.0
      else
        (let v0 = base_speed;
             M_clima = get_speed_multiplier (weather_system g) now;
             M_peso = max 0.8 (1.0 - 0.03 * real_of_int (total_weight g));
             M_rep = (if reputation g \<ge> 90 then 1.03 else 1.0);
             M_resistencia = (if stamina g \<le> 30 then 0.8 else 1.0)
         in bind_err (current_tile_info g) (\<lambda>here.
              let sw = (case here of None \<Rightarrow> 1.0 | Some info \<Rightarrow> get_surface_weight info)
              in Inr (max 0.0 (v0 * M_clima * M_peso * M_rep * M_resistencia * sw)))))"

definition is_valid_move :: "CourierQuest \<Rightarrow> Position \<Rightarrow> py_error + bool" where
  "is_valid_move g pos =
     (if \<not> (0 \<le> pos_x pos \<and> pos_x pos < city_width g \<and>
             0 \<le> pos_y pos \<and> pos_y pos < city_height g) then Inr False
      else if pos_y pos < int (length (tiles g)) \<and>
              pos_x pos < int (length (tiles g ! nat (pos_y pos))) \<and>
              get_blocked (legend_get (legend g) (tiles g ! nat (pos_y pos) ! nat (pos_x pos)))
           then Inr False
      else if stamina g \<le> 0 then Inr False
      else bind_err (calculate_stamina_cost g) (\<lambda>stamina_cost.
             Inr (stamina g \<ge> stamina_cost)))"

definition move_player :: "CourierQuest \<Rightarrow> Position \<Rightarrow> py_error + CourierQuest" where
  "move_player g new_pos =
     (if stamina g \<le> 0 then Inr g
      else bind_err (calculate_stamina_cost g) (\<lambda>stamina_cost.
             if stamina g < stamina_cost then Inr g
             else Inr (g\<lparr>player_pos := new_pos,
                         stamina := max 0 (stamina g - stamina_cost)\<rparr>)))"

text \<open>
  The keys \<open>handle_input\<close> reads and the direction it derives from them. The class body
  defines \<open>handle_input\<close> twice; the second definition (the one that returns early only
  when the stamina is at most 0) replaces the first and is the method the game calls.
\<close>

datatype key = K_LEFT | K_a | K_RIGHT | K_d | K_UP | K_w | K_DOWN | K_s

definition direction_of :: "(key \<Rightarrow> bool) \<Rightarrow> int \<times> int" where
  "direction_of keys =
     (if keys K_LEFT \<or> keys K_a then (-1, 0)
      else if keys K_RIGHT \<or> keys K_d then (1, 0)
      else if keys K_UP \<or> keys K_w then (0, -1)
      else if keys K_DOWN \<or> keys K_s then (0, 1)
      else (0, 0))"

definition handle_input ::
  "CourierQuest \<Rightarrow> (key \<Rightarrow> bool) \<Rightarrow> real \<Rightarrow> real \<Rightarrow> py_error + CourierQuest" where
  "handle_input g keys dt now =
     (if paused g \<or> game_over g then Inr g
      else if stamina g \<le> 0 then Inr g
      else bind_err (calculate_actual_speed g now) (\<lambda>actual_speed.
        let adjusted_cooldown = move_cooldown / max 0.1 (actual_speed / base_speed);
            g1 = g\<lparr>last_move_time := last_move_time g + dt\<rparr>
        in if last_move_time g1 < adjusted_cooldown then Inr g1
           else
             (let direction = direction_of keys in
              if direction \<noteq> (0, 0) then
                (let new_pos = Position (pos_x (player_pos g1) + fst direction)
                                        (pos_y (player_pos g1) + snd direction)
                 in bind_err (is_valid_move g1 new_pos) (\<lambda>valid.
                      if valid then
                        bind_err (move_player g1 new_pos) (\<lambda>g2. Inr (g2\<lparr>last_move_time := 0\<rparr>))
                      else Inr g1))
              else Inr g1)))"

subsection \<open>Delivery\<close>

text \<open>
  \<open>reputation_rules\<close> is the block of \<open>deliver_order\<close> headed "REGLAS DE REPUTACION": it
  yields \<open>rep_change\<close> and \<open>delivery_was_clean\<close>. \<open>py_int\<close> is Python's \<open>int\<close> on a float:
  truncation towards zero. The delivered order is the object held in the inventory;
  \<open>inventory.remove\<close> raises \<open>ValueError\<close> when it is not there.
\<close>

definition reputation_rules :: "real \<Rightarrow> real \<Rightarrow> int \<times> bool" where
  "reputation_rules time_remaining total_duration =
     (let time_used = total_duration - time_remaining in
      if time_remaining > total_duration * 0.8 then (5, True)
      else if time_remaining > total_duration * 0.3 then (3, True)
      else if time_remaining > 0 then
        (if time_used \<le> 30 then (-2, False)
         else if time_used \<le> 120 then (-5, False)
         else (-10, False))
      else (-10, False))"

text \<open>The reputation change the rules assign to delivering \<open>order\<close> in state \<open>g\<close>, and
  states that agree on reputation, streak and the flag of the last delivery.\<close>

definition rep_delta :: "CourierQuest \<Rightarrow> Order \<Rightarrow> int" where
  "rep_delta g order =
     fst (reputation_rules (get_order_time_remaining g order) (duration_minutes order * 60))"

definition same_standing :: "CourierQuest \<Rightarrow> CourierQuest \<Rightarrow> bool" where
  "same_standing a b =
     (reputation a = reputation b \<and> delivery_streak a = delivery_streak b \<and>
      last_delivery_was_clean a = last_delivery_was_clean b)"

definition py_int :: "real \<Rightarrow> int" where
  "py_int r = (if r < 0 then \<lceil>r\<rceil> else \<lfloor>r\<rfloor>)"

definition deliver_order :: "CourierQuest \<Rightarrow> Order \<Rightarrow> py_error + CourierQuest" where
  "deliver_order g order =
     (let time_remaining = get_order_time_remaining g order;
          total_duration = duration_minutes order * 60;
          rules = reputation_rules time_remaining total_duration;
          rep_change = fst rules;
          delivery_was_clean = snd rules;
          reduce = (rep_change < 0 \<and> reputation g \<ge> 85 \<and> \<not> first_late_penalty_applied g);
          rep_change = (if reduce then rep_change div 2 else rep_change);
          g1 = g\<lparr>first_late_penalty_applied := (first_late_penalty_applied g \<or> reduce),
                  reputation := max 0 (min 100 (reputation g + rep_change))\<rparr>;
          g2 = (if delivery_was_clean \<and> last_delivery_was_clean g1 then
                  (let g1' = g1\<lparr>delivery_streak := delivery_streak g1 + 1\<rparr> in
                   if delivery_streak g1' = 3
                   then g1'\<lparr>reputation := min 100 (reputation g1' + 2), delivery_streak := 0\<rparr>
                   else g1')
                else if \<not> delivery_was_clean then g1\<lparr>delivery_streak := 0\<rparr>
                else g1);
          g3 = g2\<lparr>last_delivery_was_clean := delivery_was_clean\<rparr>;
          pay = (if reputation g3 \<ge> 90 then py_int (real_of_int (payout order) * 1.05)
                 else payout order);
          g4 = g3\<lparr>money := money g3 + pay\<rparr>
      in if order \<in> set (inventory g4)
         then Inr (g4\<lparr>inventory := remove1 order (inventory g4),
                      completed_orders := completed_orders g4 @ [order\<lparr>status := delivered\<rparr>]\<rparr>)
         else Inl ValueError)"

subsection \<open>Undo, save and load\<close>

definition undo_move :: "CourierQuest \<Rightarrow> py_error + CourierQuest" where
  "undo_move g =
     (if size_hist (history g) > 0 then
        bind_err (pop (history g)) (\<lambda>r.
          case fst r of
            Some state \<Rightarrow>
              Inr (g\<lparr>history := snd r,
                     player_pos := gs_player_pos state,
                     stamina := gs_stamina state,
                     reputation := gs_reputation state,
                     money := gs_money state,
                     delivery_streak := gs_delivery_streak state\<rparr>)
          | None \<Rightarrow> Inr (g\<lparr>history := snd r\<rparr>))
      else Inr g)"

definition snapshot :: "CourierQuest \<Rightarrow> GameState" where
  "snapshot g = \<lparr>
     gs_player_pos = player_pos g, gs_stamina = stamina g, gs_reputation = reputation g,
     gs_money = money g, gs_game_time = game_time g,
     gs_weather_time = time_in_current (weather_system g),
     gs_current_weather = current_condition (weather_system g),
     gs_weather_intensity = current_intensity (weather_system g),
     gs_inventory = inventory g, gs_available_orders = available_orders g,
     gs_completed_orders = completed_orders g, gs_goal = goal g,
     gs_delivery_streak = delivery_streak g, gs_pending_orders = pending_orders g,
     gs_city_width = city_width g, gs_city_height = city_height g, gs_tiles = tiles g,
     gs_legend = legend g, gs_city_name = city_name g, gs_max_game_time = max_game_time g\<rparr>"

definition save_game :: "CourierQuest \<Rightarrow> saves \<Rightarrow> int \<Rightarrow> real \<Rightarrow> string \<Rightarrow> saves" where
  "save_game g fs slot now now_iso =
     snd (save_game_with_validation fs (snapshot g) slot now now_iso)"

definition load_game :: "CourierQuest \<Rightarrow> saves \<Rightarrow> int \<Rightarrow> bool \<times> CourierQuest" where
  "load_game g fs slot =
     (case load_game_with_validation fs slot of
        None \<Rightarrow> (False, g)
      | Some state \<Rightarrow>
          (True, g\<lparr>player_pos := gs_player_pos state,
                   stamina := gs_stamina state,
                   reputation := gs_reputation state,
                   money := gs_money state,
                   game_time := gs_game_time state,
                   weather_system := (weather_system g)\<lparr>
                     time_in_current := gs_weather_time state,
                     current_condition := gs_current_weather state,
                     current_intensity := gs_weather_intensity state\<rparr>,
                   inventory := gs_inventory state,
                   available_orders := gs_available_orders state,
                   completed_orders := gs_completed_orders state,
                   goal := gs_goal state,
                   delivery_streak := gs_delivery_streak state,
                   pending_orders := gs_pending_orders state,
                   city_width := gs_city_width state,
                   city_height := gs_city_height state,
                   tiles := gs_tiles state,
                   legend := gs_legend state,
                   city_name := gs_city_name state,
                   max_game_time := gs_max_game_time state\<rparr>))"

subsection \<open>Releasing and expiring orders\<close>

text \<open>
  \<open>release_loop\<close> is the \<open>while\<close> loop of \<open>_process_order_releases\<close>: its arguments are the
  pending orders, the queue items, \<open>released_count\<close> and \<open>current_active_orders\<close>; each
  round pops the first pending order, so the recursion is on the pending list.
\<close>

definition MAX_ACTIVE_ORDERS :: int where
  "MAX_ACTIVE_ORDERS = 10"

definition orders_to_release :: "int \<Rightarrow> int" where
  "orders_to_release current_active_orders =
     (if current_active_orders < MAX_ACTIVE_ORDERS div 3 then 3
      else if current_active_orders < MAX_ACTIVE_ORDERS div 2 then 2
      else if current_active_orders < MAX_ACTIVE_ORDERS then 1
      else 0)"

fun release_loop ::
  "CourierQuest \<Rightarrow> int \<Rightarrow> Order list \<Rightarrow> Order list \<Rightarrow> int \<Rightarrow> int
     \<Rightarrow> Order list \<times> Order list \<times> int" where
  "release_loop g limit [] items released_count current_active = ([], items, released_count)"
| "release_loop g limit (order # rest) items released_count current_active =
     (if released_count < limit \<and> real_of_int (release_time order) \<le> game_time g \<and>
         current_active < MAX_ACTIVE_ORDERS
      then
        (let order1 = (if \<not> validate_order_positions g order
                       then fix_order_positions g order else order);
             order2 = order1\<lparr>status := available, created_at := game_time g\<rparr>
         in release_loop g limit rest (enqueue items order2)
              (released_count + 1) (current_active + 1))
      else (order # rest, items, released_count))"

text \<open>An order is due when its release time has come.\<close>

definition due :: "CourierQuest \<Rightarrow> Order \<Rightarrow> bool" where
  "due g order = (real_of_int (release_time order) \<le> game_time g)"

definition process_order_releases :: "CourierQuest \<Rightarrow> CourierQuest" where
  "process_order_releases g =
     (let current_active_orders = int (length (available_orders g));
          r = release_loop g (orders_to_release current_active_orders) (pending_orders g)
                (available_orders g) 0 current_active_orders
      in g\<lparr>pending_orders := fst r, available_orders := fst (snd r)\<rparr>)"

definition released_count_of :: "CourierQuest \<Rightarrow> int" where
  "released_count_of g =
     snd (snd (release_loop g (orders_to_release (int (length (available_orders g))))
                 (pending_orders g) (available_orders g) 0 (int (length (available_orders g)))))"

text \<open>
  \<open>_check_expired_orders\<close>: both loops run over a copy of the list and remove the expired
  orders from the list itself; then every expired order costs 6 reputation points.
\<close>

definition expire_step :: "CourierQuest \<Rightarrow> Order list \<times> Order list \<Rightarrow> Order \<Rightarrow> Order list \<times> Order list" where
  "expire_step g acc order =
     (if get_order_time_remaining g order \<le> 0
      then (fst acc @ [order], remove1 order (snd acc))
      else acc)"

definition expiry_penalty :: "CourierQuest \<Rightarrow> Order \<Rightarrow> CourierQuest" where
  "expiry_penalty g order =
     g\<lparr>reputation := reputation g - 6, delivery_streak := 0, last_delivery_was_clean := False\<rparr>"

definition check_expired_orders :: "CourierQuest \<Rightarrow> CourierQuest" where
  "check_expired_orders g =
     (let r1 = foldl (expire_step g) ([], available_orders g) (available_orders g);
          r2 = foldl (expire_step g) (fst r1, inventory g) (inventory g);
          g1 = g\<lparr>available_orders := snd r1, inventory := snd r2\<rparr>
      in foldl expiry_penalty g1 (fst r2))"

subsection \<open>The tick\<close>

definition get_stamina_recovery_rate :: "CourierQuest \<Rightarrow> py_error + real" where
  "get_stamina_recovery_rate g =
     (let base_recovery = 5.0 in
      bind_err (current_tile_info g) (\<lambda>here.
        case here of
          None \<Rightarrow> Inr base_recovery
        | Some info \<Rightarrow>
            (if get_rest_bonus info > 0 then Inr (base_recovery + 10.0) else Inr base_recovery)))"

definition update :: "CourierQuest \<Rightarrow> real \<Rightarrow> env \<Rightarrow> py_error + CourierQuest" where
  "update g dt e =
     (if game_state g \<noteq> Playing \<or> paused g \<or> game_over g then Inr g
      else
        (let g1 = (if size_hist (history g) = 0 \<or> game_time g - last_history_save g > 8.0
                   then g\<lparr>history := push (history g) (snapshot g),
                          last_history_save := game_time g\<rparr>
                   else g);
             g2 = g1\<lparr>game_time := game_time g1 + dt,
                      weather_system := weather_update (weather_system g1) dt e\<rparr>;
             g3 = process_order_releases g2;
             g4 = check_expired_orders g3
         in bind_err
              (if stamina g4 < max_stamina \<and> last_move_time g4 > 1.0 then
                 bind_err (get_stamina_recovery_rate g4) (\<lambda>recovery_rate.
                   Inr (g4\<lparr>stamina := min max_stamina (stamina g4 + recovery_rate * dt)\<rparr>))
               else Inr g4)
              (\<lambda>g5.
                 if reputation g5 < 20 then Inr (g5\<lparr>game_over := True\<rparr>)
                 else if money g5 \<ge> goal g5 then Inr (g5\<lparr>victory := True, game_over := True\<rparr>)
                 else if game_time g5 \<ge> max_game_time g5 then
                   Inr (if money g5 \<ge> goal g5
                        then g5\<lparr>game_over := True, victory := True\<rparr>
                        else g5\<lparr>game_over := True\<rparr>)
                 else Inr g5)))"

subsection \<open>Sequences of player commands\<close>

text \<open>
  What the main loop \<open>run\<close> does: a frame caps the frame time at a thirtieth of a second,
  calls \<open>handle_input\<close> with the pressed keys when the game is in play, and then \<open>update\<close>;
  in play the keys Ctrl+Z, F5 and F9 call \<open>undo_move\<close>, \<open>save_game\<close> and \<open>load_game\<close> on
  slot 1. The state is the game object with the save directory; an exception ends the
  run.
\<close>

datatype command = Frame "key \<Rightarrow> bool" real env | Undo | Save real string | Load

fun run_commands ::
  "CourierQuest \<times> saves \<Rightarrow> command list \<Rightarrow> py_error + CourierQuest \<times> saves" where
  "run_commands s [] = Inr s"
| "run_commands s (Frame keys dt e # rest) =
     bind_err (if game_state (fst s) = Playing
               then handle_input (fst s) keys (min dt (1 / 30)) (wall_clock e)
               else Inr (fst s)) (\<lambda>g1.
       bind_err (update g1 (min dt (1 / 30)) e) (\<lambda>g2. run_commands (g2, snd s) rest))"
| "run_commands s (Undo # rest) =
     bind_err (if game_state (fst s) = Playing then undo_move (fst s) else Inr (fst s))
       (\<lambda>g'. run_commands (g', snd s) rest)"
| "run_commands s (Save t stamp # rest) =
     run_commands (fst s, if game_state (fst s) = Playing
                          then save_game (fst s) (snd s) 1 t stamp else snd s) rest"
| "run_commands s (Load # rest) =
     run_commands (if game_state (fst s) = Playing
                   then snd (load_game (fst s) (snd s) 1) else fst s, snd s) rest"

section \<open>Example data\<close>

text \<open>The map of \<open>_create_fallback_data\<close> (20 by 15 street tiles) and a state on it.\<close>

definition fallback_tiles :: "string list list" where
  "fallback_tiles = replicate 15 (replicate 20 ''C'')"

definition fallback_legend :: "string \<rightharpoonup> tile_info" where
  "fallback_legend =
     [''C'' \<mapsto> \<lparr>tile_name = Some ''calle'', surface_weight = Some 1, blocked = None,
                rest_bonus = None\<rparr>]"

definition gs_example :: GameState where
  "gs_example = \<lparr>
     gs_player_pos = Position 2 2, gs_stamina = 100, gs_reputation = 70, gs_money = 0,
     gs_game_time = 0, gs_weather_time = 0, gs_current_weather = Clear,
     gs_weather_intensity = 0.5, gs_inventory = [], gs_available_orders = [],
     gs_completed_orders = [], gs_goal = 2000, gs_delivery_streak = 2,
     gs_pending_orders = [], gs_city_width = 20, gs_city_height = 15,
     gs_tiles = fallback_tiles, gs_legend = fallback_legend,
     gs_city_name = ''Ciudad de Respaldo'', gs_max_game_time = 600\<rparr>"

definition gs_moved :: GameState where
  "gs_moved = gs_example\<lparr>gs_player_pos := Position 4 2, gs_stamina := 20\<rparr>"

definition hist_example :: history where
  "hist_example = push (push init_history gs_example) gs_moved"

definition order_a :: Order where
  "order_a = \<lparr>order_id = ''A'', pickup = Position 1 1, dropoff = Position 5 5, payout = 100,
     duration_minutes = 1, weight = 1, priority = 0, release_time = 0,
     status = waiting_release, created_at = 0, accepted_at = 0\<rparr>"

definition order_b :: Order where
  "order_b = order_a\<lparr>order_id := ''B'', priority := 2\<rparr>"

definition order_c :: Order where
  "order_c = order_a\<lparr>order_id := ''C'', priority := 1\<rparr>"

definition pq_ops_example :: "pq_op list" where
  "pq_ops_example =
     [Enqueue order_a, Enqueue order_b, Enqueue order_c, Enqueue order_b, Remove order_b,
      Dequeue, Enqueue order_a]"

text \<open>The engine after \<open>__init__\<close> and \<open>_create_fallback_data\<close>, in play.\<close>

definition game_example :: CourierQuest where
  "game_example = \<lparr>
     game_state = Playing, paused = False, game_over = False, victory = False,
     city_width = 20, city_height = 15,
     tiles = fallback_tiles, legend = fallback_legend, goal = 2000,
     city_name = ''Ciudad de Respaldo'', max_game_time = 600,
     player_pos = Position 2 2, stamina = 100, reputation = 70, money = 0, game_time = 0,
     pending_orders = [], available_orders = [], inventory = [], completed_orders = [],
     delivery_streak = 0, last_delivery_was_clean = True, last_move_time = 0,
     weather_system = init_weather, history = init_history,
     first_late_penalty_applied = False, last_history_save = 0\<rparr>"

text \<open>Orders in the courier's hands: one with 600 s, one with 60 s and one with 100 s
  of total duration, all created at time 0; and copies of the first under other ids.\<close>

definition order_p :: Order where
  "order_p = \<lparr>order_id = ''P1'', pickup = Position 1 1, dropoff = Position 5 5, payout = 200,
     duration_minutes = 10, weight = 1, priority = 0, release_time = 0,
     status = picked_up, created_at = 0, accepted_at = 0\<rparr>"

definition order_p2 :: Order where
  "order_p2 = order_p\<lparr>order_id := ''P2''\<rparr>"

definition order_p3 :: Order where
  "order_p3 = order_p\<lparr>order_id := ''P3''\<rparr>"

definition order_late :: Order where
  "order_late = order_p\<lparr>order_id := ''L1'', duration_minutes := 1\<rparr>"

definition order_100 :: Order where
  "order_100 = order_p\<lparr>order_id := ''S1'', duration_minutes := 5 / 3\<rparr>"

text \<open>Reputation 70, a 100 s order delivered 10 s after its creation.\<close>

definition game_scenario :: CourierQuest where
  "game_scenario = game_example\<lparr>game_time := 10, inventory := [order_100]\<rparr>"

text \<open>At time 50 the courier holds the late order and three orders that are early.\<close>

definition game_streak :: CourierQuest where
  "game_streak = game_example\<lparr>game_time := 50, inventory := [order_p, order_p2, order_p3]\<rparr>"

definition game_after_late :: CourierQuest where
  "game_after_late =
     game_example\<lparr>game_time := 50, inventory := [order_late, order_p, order_p2, order_p3]\<rparr>"

fun deliver_all :: "CourierQuest \<Rightarrow> Order list \<Rightarrow> py_error + CourierQuest" where
  "deliver_all g [] = Inr g"
| "deliver_all g (order # rest) = bind_err (deliver_order g order) (\<lambda>g'. deliver_all g' rest)"

text \<open>Reputation 88 before an early delivery, and reputation 90 before a late one.\<close>

definition game_raise :: CourierQuest where
  "game_raise = game_streak\<lparr>reputation := 88\<rparr>"

definition game_drop :: CourierQuest where
  "game_drop = game_after_late\<lparr>reputation := 90\<rparr>"

text \<open>The states after the first, second and third delivery from \<open>game_streak\<close>.\<close>

definition game_streak1 :: CourierQuest where
  "game_streak1 = game_streak\<lparr>reputation := 75, delivery_streak := 1, money := 200,
     inventory := [order_p2, order_p3],
     completed_orders := [order_p\<lparr>status := delivered\<rparr>]\<rparr>"

definition game_streak2 :: CourierQuest where
  "game_streak2 = game_streak\<lparr>reputation := 80, delivery_streak := 2, money := 400,
     inventory := [order_p3],
     completed_orders := [order_p\<lparr>status := delivered\<rparr>, order_p2\<lparr>status := delivered\<rparr>]\<rparr>"

definition game_streak3 :: CourierQuest where
  "game_streak3 = game_streak\<lparr>reputation := 87, delivery_streak := 0, money := 600,
     inventory := [],
     completed_orders := [order_p\<lparr>status := delivered\<rparr>, order_p2\<lparr>status := delivered\<rparr>,
                          order_p3\<lparr>status := delivered\<rparr>]\<rparr>"

text \<open>Twelve pending orders, released at the seconds 0 to 11, at game time 20 with no
  active order.\<close>

definition backlog :: "Order list" where
  "backlog = map (\<lambda>n. order_a\<lparr>release_time := n\<rparr>) [0, 1, 2, 3, 4, 5, 6, 7, 8, 9, 10, 11]"

definition game_backlog :: CourierQuest where
  "game_backlog = game_example\<lparr>game_time := 20, pending_orders := backlog\<rparr>"

text \<open>The same backlog with three orders in the active queue.\<close>

definition game_three_active :: CourierQuest where
  "game_three_active =
     game_backlog\<lparr>available_orders :=
       [order_b\<lparr>status := available\<rparr>, order_c\<lparr>status := available\<rparr>,
        order_a\<lparr>status := available\<rparr>]\<rparr>"

text \<open>
  Four available orders of 60 s, created at time 0, seen at time 100 by a courier whose
  reputation has fallen to 22.
\<close>

definition expired_orders :: "Order list" where
  "expired_orders =
     map (\<lambda>i. order_a\<lparr>order_id := i, status := available\<rparr>) [''E1'', ''E2'', ''E3'', ''E4'']"

definition game_expiry :: CourierQuest where
  "game_expiry =
     game_example\<lparr>reputation := 22, game_time := 100, available_orders := expired_orders\<rparr>"

text \<open>
  A courier with 0.5 stamina left at (5, 2), 22 s into the game, who has stood still
  for a second. The history holds the snapshot of the start as its base and three
  diffs: after the first step, and later at (4, 2) with stamina 60 and with stamina 20.
  In a frame the right arrow key is held down, in an idle frame no key; a frame lasts a
  thirtieth of a second.
\<close>

definition hist_tired :: history where
  "hist_tired =
     push (push (push (push init_history (snapshot game_example))
       (snapshot (game_example\<lparr>player_pos := Position 3 2, stamina := 99.5, game_time := 0.1\<rparr>)))
       (snapshot (game_example\<lparr>player_pos := Position 4 2, stamina := 60, game_time := 8.2\<rparr>)))
       (snapshot (game_example\<lparr>player_pos := Position 4 2, stamina := 20, game_time := 16.3\<rparr>))"

definition game_tired :: CourierQuest where
  "game_tired = game_example\<lparr>player_pos := Position 5 2, stamina := 0.5,
     last_move_time := 1, game_time := 22,
     weather_system := init_weather\<lparr>time_in_current := 22\<rparr>,
     history := hist_tired, last_history_save := 16.3\<rparr>"

definition keys_right :: "key \<Rightarrow> bool" where
  "keys_right k = (k = K_RIGHT)"

definition keys_none :: "key \<Rightarrow> bool" where
  "keys_none k = False"

definition env_quiet :: env where
  "env_quiet = \<lparr>wall_clock = 0, rand_choice = 0, rand_uniform = 0, rand_burst = 30\<rparr>"

definition frame :: command where
  "frame = Frame keys_right (1 / 30) env_quiet"

definition idle :: command where
  "idle = Frame keys_none (1 / 30) env_quiet"

text \<open>
  The same courier after the move that spends the last stamina, one frame later, after
  the undo that follows a save, while resting (\<open>l\<close> seconds since the last move, at game
  time \<open>t\<close>), and after the load of the saved game.
\<close>

definition game_exhausted :: CourierQuest where
  "game_exhausted =
     game_tired\<lparr>player_pos := Position 6 2, stamina := 0, last_move_time := 0,
       game_time := 661 / 30, weather_system := init_weather\<lparr>time_in_current := 661 / 30\<rparr>\<rparr>"

definition game_stuck :: CourierQuest where
  "game_stuck =
     game_exhausted\<lparr>game_time := 662 / 30,
       weather_system := init_weather\<lparr>time_in_current := 662 / 30\<rparr>\<rparr>"

definition saves_stuck :: saves where
  "saves_stuck = save_game game_stuck Map.empty 1 0 []"

definition game_resting :: "real \<Rightarrow> real \<Rightarrow> real \<Rightarrow> CourierQuest" where
  "game_resting s l t =
     game_stuck\<lparr>player_pos := Position 4 2, stamina := s, last_move_time := l,
       game_time := t, weather_system := init_weather\<lparr>time_in_current := t\<rparr>,
       history := hist_tired\<lparr>diffs := butlast (diffs hist_tired)\<rparr>\<rparr>"

definition game_loaded :: "real \<Rightarrow> real \<Rightarrow> real \<Rightarrow> CourierQuest" where
  "game_loaded s l t =
     game_stuck\<lparr>stamina := s, last_move_time := l, game_time := t,
       weather_system := init_weather\<lparr>time_in_current := t\<rparr>,
       history := hist_tired\<lparr>diffs := butlast (diffs hist_tired)\<rparr>\<rparr>"

section \<open>The priority queue stays sorted\<close>

lemma enqueue_loop_bounds:
  "left \<le> right \<Longrightarrow> left \<le> enqueue_loop items item left right \<and> enqueue_loop items item left right \<le> right"
proof (induction items item left right rule: enqueue_loop.induct)
  case (1 items item left right)
  show ?case
  proof (cases "left < right")
    case True
    then have mid: "left \<le> (left + right) div 2" "(left + right) div 2 + 1 \<le> right" by auto
    show ?thesis
    proof (cases "priority (items ! ((left + right) div 2)) < priority item")
      case lt: True
      from 1(1)[OF True lt mid(1)] mid True lt show ?thesis
        by (subst (1 2) enqueue_loop.simps) auto
    next
      case ge: False
      from 1(2)[OF True ge mid(2)] mid True ge show ?thesis
        by (subst (1 2) enqueue_loop.simps) auto
    qed
  next
    case False
    then show ?thesis using 1 by (subst (1 2) enqueue_loop.simps) auto
  qed
qed

lemma enqueue_loop_split:
  assumes "sorted_desc items" "left \<le> right" "right \<le> length items"
    "\<forall>i<left. priority item \<le> priority (items ! i)"
    "\<forall>i. right \<le> i \<and> i < length items \<longrightarrow> priority (items ! i) < priority item"
  shows "(\<forall>i<enqueue_loop items item left right. priority item \<le> priority (items ! i)) \<and>
         (\<forall>i. enqueue_loop items item left right \<le> i \<and> i < length items \<longrightarrow> priority (items ! i) < priority item)"
  using assms
proof (induction items item left right rule: enqueue_loop.induct)
  case (1 items item left right)
  let ?mid = "(left + right) div 2"
  show ?case
  proof (cases "left < right")
    case False
    then show ?thesis using 1(4-) by (subst (1 2) enqueue_loop.simps) auto
  next
    case True
    then have mid: "left \<le> ?mid" "?mid < right" by auto
    have srt: "\<And>i j. i \<le> j \<Longrightarrow> j < length items \<Longrightarrow> priority (items ! j) \<le> priority (items ! i)"
      using 1(3) unfolding sorted_desc_def
      by (metis le_eq_less_or_eq order_refl sorted_wrt_iff_nth_less)
    show ?thesis
    proof (cases "priority (items ! ?mid) < priority item")
      case lt: True
      have "\<forall>i. ?mid \<le> i \<and> i < length items \<longrightarrow> priority (items ! i) < priority item"
        using srt lt by (meson le_less_trans)
      with 1(1)[OF True lt 1(3)] mid 1(5,6) True lt
      show ?thesis by (subst (1 2) enqueue_loop.simps) auto
    next
      case ge: False
      have "\<forall>i<?mid + 1. priority item \<le> priority (items ! i)"
      proof (intro allI impI)
        fix i assume "i < ?mid + 1"
        then have "i \<le> ?mid" by simp
        then have "priority (items ! ?mid) \<le> priority (items ! i)"
          using srt mid 1(5) by simp
        with ge show "priority item \<le> priority (items ! i)" by simp
      qed
      with 1(2)[OF True ge 1(3)] mid 1(5,7) True ge
      show ?thesis by (subst (1 2) enqueue_loop.simps) auto
    qed
  qed
qed


lemma sorted_desc_enqueue:
  assumes "sorted_desc items"
  shows "sorted_desc (enqueue items item)"
proof (cases "items = []")
  case True
  then show ?thesis by (simp add: enqueue_def sorted_desc_def)
next
  case False
  define l where "l = enqueue_loop items item 0 (length items)"
  have l_le: "l \<le> length items"
    using enqueue_loop_bounds[of 0 "length items" items item] by (simp add: l_def)
  have sp: "(\<forall>i<l. priority item \<le> priority (items ! i)) \<and>
         (\<forall>i. l \<le> i \<and> i < length items \<longrightarrow> priority (items ! i) < priority item)"
    unfolding l_def by (rule enqueue_loop_split[OF assms]) simp_all
  have lo: "\<forall>a\<in>set (take l items). priority item \<le> priority a"
    using sp l_le by (auto simp: in_set_conv_nth)
  have hi: "\<forall>b\<in>set (drop l items). priority b \<le> priority item"
  proof
    fix b assume "b \<in> set (drop l items)"
    then obtain k where k: "k < length items - l" "b = items ! (l + k)"
      by (auto simp: in_set_conv_nth)
    with sp have "priority (items ! (l + k)) < priority item" by simp
    with k show "priority b \<le> priority item" by simp
  qed
  have parts: "sorted_desc (take l items)" "sorted_desc (drop l items)"
    using assms unfolding sorted_desc_def by (simp_all add: sorted_wrt_take sorted_wrt_drop)
  have cross: "\<forall>a\<in>set (take l items). \<forall>b\<in>set (drop l items). priority b \<le> priority a"
    using lo hi by force
  have "sorted_desc (take l items @ item # drop l items)"
    using parts lo hi cross unfolding sorted_desc_def
    by (simp add: sorted_wrt_append)
  with False show ?thesis by (simp add: enqueue_def l_def Let_def)
qed

lemma sorted_desc_dequeue: "sorted_desc items \<Longrightarrow> sorted_desc (snd (dequeue items))"
  by (cases items) (simp_all add: dequeue_def sorted_desc_def)

lemma sorted_desc_remove_pq: "sorted_desc items \<Longrightarrow> sorted_desc (snd (remove_pq items order))"
  unfolding sorted_desc_def remove_pq_def
  by (induction items) (auto dest: notin_set_remove1)

lemma sorted_desc_apply_pq_op: "sorted_desc items \<Longrightarrow> sorted_desc (apply_pq_op items op)"
  by (cases op) (simp_all add: sorted_desc_enqueue sorted_desc_dequeue sorted_desc_remove_pq)

lemma sorted_desc_foldl:
  "sorted_desc items \<Longrightarrow> sorted_desc (foldl apply_pq_op items ops)"
  by (induction ops arbitrary: items) (simp_all add: sorted_desc_apply_pq_op)

lemma dequeue_front_max:
  "sorted_desc items \<Longrightarrow> items \<noteq> [] \<Longrightarrow>
     fst (dequeue items) = Some (hd items) \<and> (\<forall>y\<in>set items. priority y \<le> priority (hd items))"
  by (cases items) (auto simp: dequeue_def sorted_desc_def)

text \<open>
  Claim C7. After any sequence of \<open>enqueue\<close>, \<open>dequeue\<close> and \<open>remove\<close> calls on the empty
  queue the list of items is sorted by descending priority, and \<open>dequeue\<close> on a non-empty
  queue returns its front item, whose priority is maximal among the items.
\<close>

theorem pq_sorted_and_dequeue_max:
  "sorted_desc (run_pq ops) \<and>
   (run_pq ops \<noteq> [] \<longrightarrow>
      (\<exists>front. dequeue (run_pq ops) = (Some front, tl (run_pq ops)) \<and>
         (\<forall>y\<in>set (run_pq ops). priority y \<le> priority front)))"
proof -
  have s: "sorted_desc (run_pq ops)"
    unfolding run_pq_def by (rule sorted_desc_foldl) (simp add: sorted_desc_def)
  moreover have "run_pq ops \<noteq> [] \<Longrightarrow>
      (\<exists>front. dequeue (run_pq ops) = (Some front, tl (run_pq ops)) \<and>
         (\<forall>y\<in>set (run_pq ops). priority y \<le> priority front))"
    using dequeue_front_max[OF s] by (cases "run_pq ops") (auto simp: dequeue_def)
  ultimately show ?thesis by blast
qed

lemma run_pq_example: "run_pq pq_ops_example = [order_c, order_a, order_a]"
  by (simp add: run_pq_def pq_ops_example_def enqueue_def remove_pq_def dequeue_def
      enqueue_loop.simps order_a_def order_b_def order_c_def)

theorem pq_sorted_and_dequeue_max_witness:
  "run_pq pq_ops_example \<noteq> [] \<and> sorted_desc (run_pq pq_ops_example) \<and>
   (\<exists>front. dequeue (run_pq pq_ops_example) = (Some front, tl (run_pq pq_ops_example)) \<and>
      front = order_c \<and> (\<forall>y\<in>set (run_pq pq_ops_example). priority y \<le> priority front))"
  using pq_sorted_and_dequeue_max[of pq_ops_example]
  by (simp add: run_pq_example dequeue_def)

section \<open>History and persistence\<close>

lemma hist_inv_push: "hist_inv h \<Longrightarrow> hist_inv (push h state)"
  by (auto simp: hist_inv_def push_def Let_def split: option.splits)

lemma hist_inv_pop: "hist_inv h \<Longrightarrow> \<exists>r h'. pop h = Inr (r, h') \<and> hist_inv h'"
  by (auto simp: hist_inv_def pop_def Let_def split: option.splits)

lemma run_history_inv:
  "hist_inv h \<Longrightarrow> \<exists>h'. run_history h ops = Inr h' \<and> hist_inv h'"
proof (induction h ops rule: run_history.induct)
  case (1 h)
  then show ?case by simp
next
  case (2 h state ops)
  then show ?case by (simp add: hist_inv_push)
next
  case (3 h ops)
  from hist_inv_pop[OF 3(2)] obtain r h' where p: "pop h = Inr (r, h')" "hist_inv h'" by blast
  with 3(1)[of "(r, h')"] show ?case by (simp add: bind_err_def)
qed

lemma hist_inv_init: "hist_inv init_history"
  by (simp add: hist_inv_def init_history_def)

lemma make_diff_empty_iff:
  "make_diff base s = empty_diff \<longleftrightarrow>
     gs_player_pos s = gs_player_pos base \<and> \<bar>gs_stamina base - gs_stamina s\<bar> \<le> 1 \<and>
     gs_money s = gs_money base \<and> gs_reputation s = gs_reputation base"
  by (auto simp: make_diff_def empty_diff_def Position.expand)

lemma pop_some:
  "diffs h \<noteq> [] \<Longrightarrow> base_state h = Some base \<Longrightarrow>
   pop h = Inr (Some (base\<lparr>
       gs_player_pos := (case d_player_pos (last (diffs h)) of
                           None \<Rightarrow> gs_player_pos base | Some (px, py) \<Rightarrow> Position px py),
       gs_stamina := (case d_stamina (last (diffs h)) of None \<Rightarrow> gs_stamina base | Some v \<Rightarrow> v),
       gs_money := (case d_money (last (diffs h)) of None \<Rightarrow> gs_money base | Some v \<Rightarrow> v),
       gs_reputation := (case d_reputation (last (diffs h)) of
                           None \<Rightarrow> gs_reputation base | Some v \<Rightarrow> v),
       gs_delivery_streak := 0\<rparr>),
     h\<lparr>diffs := butlast (diffs h)\<rparr>)"
  by (simp add: pop_def Let_def split: option.splits prod.splits)


lemma push_with_base:
  "base_state h = Some base \<Longrightarrow> max_size h = 20 \<Longrightarrow>
   push h s =
     (if gs_player_pos s = gs_player_pos base \<and> \<bar>gs_stamina base - gs_stamina s\<bar> \<le> 1 \<and>
         gs_money s = gs_money base \<and> gs_reputation s = gs_reputation base
      then h
      else h\<lparr>diffs := (if 19 \<le> length (diffs h) then tl (diffs h) else diffs h) @
             [\<lparr>d_player_pos = (if gs_player_pos s \<noteq> gs_player_pos base
                                then Some (pos_x (gs_player_pos s), pos_y (gs_player_pos s))
                                else None),
               d_stamina = (if \<bar>gs_stamina base - gs_stamina s\<bar> > 1
                            then Some (gs_stamina s) else None),
               d_money = (if gs_money s \<noteq> gs_money base then Some (gs_money s) else None),
               d_reputation = (if gs_reputation s \<noteq> gs_reputation base
                               then Some (gs_reputation s) else None)\<rparr>]\<rparr>)"
proof (cases "make_diff base s = empty_diff")
  case True
  assume b: "base_state h = Some base"
  from True have "gs_player_pos s = gs_player_pos base \<and> \<bar>gs_stamina base - gs_stamina s\<bar> \<le> 1 \<and>
         gs_money s = gs_money base \<and> gs_reputation s = gs_reputation base"
    by (simp add: make_diff_empty_iff)
  with True b show ?thesis
    by (simp add: push_def Let_def)
next
  case False
  assume b: "base_state h = Some base" and m: "max_size h = 20"
  have d: "make_diff base s =
      \<lparr>d_player_pos = (if gs_player_pos s \<noteq> gs_player_pos base
                                then Some (pos_x (gs_player_pos s), pos_y (gs_player_pos s))
                                else None),
               d_stamina = (if \<bar>gs_stamina base - gs_stamina s\<bar> > 1
                            then Some (gs_stamina s) else None),
               d_money = (if gs_money s \<noteq> gs_money base then Some (gs_money s) else None),
               d_reputation = (if gs_reputation s \<noteq> gs_reputation base
                               then Some (gs_reputation s) else None)\<rparr>"
    by (auto simp: make_diff_def Position.expand)
  have e: "\<not> (gs_player_pos s = gs_player_pos base \<and> \<bar>gs_stamina base - gs_stamina s\<bar> \<le> 1 \<and>
         gs_money s = gs_money base \<and> gs_reputation s = gs_reputation base)"
    using False by (simp add: make_diff_empty_iff)
  have t: "19 \<le> length (diffs h) \<Longrightarrow> tl (diffs h @ [make_diff base s]) = tl (diffs h) @ [make_diff base s]"
    by (cases "diffs h") simp_all
  show ?thesis
    using False e t b m unfolding d[symmetric]
    by (auto simp: push_def Let_def)
qed

text \<open>
  Claim C8, as amended. A history run from \<open>MemoryEfficientHistory()\<close> never raises and
  holds at most 20 diffs. With a base snapshot, \<open>push\<close> leaves the history unchanged when
  position, money and reputation equal the base's and the stamina differs from the
  base's by at most 1.0; otherwise it appends one diff that records exactly the
  differing fields (and drops the oldest diff when 19 were held). \<open>pop\<close> removes the last
  diff and returns the base snapshot with position, stamina, money and reputation
  replaced by the diff's values where present, and with \<open>delivery_streak\<close> set to 0, not
  to the base's value.
\<close>

theorem history_diff_undo:
  "(\<exists>h'. run_history init_history ops = Inr h' \<and> max_size h' = 20 \<and> length (diffs h') \<le> 20) \<and>
   (base_state h = Some base \<and> max_size h = 20 \<longrightarrow>
      push h s =
       (if gs_player_pos s = gs_player_pos base \<and> \<bar>gs_stamina base - gs_stamina s\<bar> \<le> 1 \<and>
           gs_money s = gs_money base \<and> gs_reputation s = gs_reputation base
        then h
        else h\<lparr>diffs := (if 19 \<le> length (diffs h) then tl (diffs h) else diffs h) @
             [\<lparr>d_player_pos = (if gs_player_pos s \<noteq> gs_player_pos base
                                then Some (pos_x (gs_player_pos s), pos_y (gs_player_pos s))
                                else None),
               d_stamina = (if \<bar>gs_stamina base - gs_stamina s\<bar> > 1
                            then Some (gs_stamina s) else None),
               d_money = (if gs_money s \<noteq> gs_money base then Some (gs_money s) else None),
               d_reputation = (if gs_reputation s \<noteq> gs_reputation base
                               then Some (gs_reputation s) else None)\<rparr>]\<rparr>)) \<and>
   (base_state h = Some base \<and> diffs h \<noteq> [] \<longrightarrow>
      pop h = Inr (Some (base\<lparr>
          gs_player_pos := (case d_player_pos (last (diffs h)) of
                              None \<Rightarrow> gs_player_pos base | Some (px, py) \<Rightarrow> Position px py),
          gs_stamina := (case d_stamina (last (diffs h)) of
                           None \<Rightarrow> gs_stamina base | Some v \<Rightarrow> v),
          gs_money := (case d_money (last (diffs h)) of None \<Rightarrow> gs_money base | Some v \<Rightarrow> v),
          gs_reputation := (case d_reputation (last (diffs h)) of
                              None \<Rightarrow> gs_reputation base | Some v \<Rightarrow> v),
          gs_delivery_streak := 0\<rparr>),
        h\<lparr>diffs := butlast (diffs h)\<rparr>))"
proof (intro conjI impI)
  from run_history_inv[OF hist_inv_init, of ops]
  show "\<exists>h'. run_history init_history ops = Inr h' \<and> max_size h' = 20 \<and> length (diffs h') \<le> 20"
    by (auto simp: hist_inv_def)
next
  assume "base_state h = Some base \<and> max_size h = 20"
  then show "push h s =
       (if gs_player_pos s = gs_player_pos base \<and> \<bar>gs_stamina base - gs_stamina s\<bar> \<le> 1 \<and>
           gs_money s = gs_money base \<and> gs_reputation s = gs_reputation base
        then h
        else h\<lparr>diffs := (if 19 \<le> length (diffs h) then tl (diffs h) else diffs h) @
             [\<lparr>d_player_pos = (if gs_player_pos s \<noteq> gs_player_pos base
                                then Some (pos_x (gs_player_pos s), pos_y (gs_player_pos s))
                                else None),
               d_stamina = (if \<bar>gs_stamina base - gs_stamina s\<bar> > 1
                            then Some (gs_stamina s) else None),
               d_money = (if gs_money s \<noteq> gs_money base then Some (gs_money s) else None),
               d_reputation = (if gs_reputation s \<noteq> gs_reputation base
                               then Some (gs_reputation s) else None)\<rparr>]\<rparr>)"
    using push_with_base[of h base s] by blast
next
  assume "base_state h = Some base \<and> diffs h \<noteq> []"
  then show "pop h = Inr (Some (base\<lparr>
          gs_player_pos := (case d_player_pos (last (diffs h)) of
                              None \<Rightarrow> gs_player_pos base | Some (px, py) \<Rightarrow> Position px py),
          gs_stamina := (case d_stamina (last (diffs h)) of
                           None \<Rightarrow> gs_stamina base | Some v \<Rightarrow> v),
          gs_money := (case d_money (last (diffs h)) of None \<Rightarrow> gs_money base | Some v \<Rightarrow> v),
          gs_reputation := (case d_reputation (last (diffs h)) of
                              None \<Rightarrow> gs_reputation base | Some v \<Rightarrow> v),
          gs_delivery_streak := 0\<rparr>),
        h\<lparr>diffs := butlast (diffs h)\<rparr>)"
    using pop_some[of h base] by blast
qed

lemma hist_example_eq:
  "hist_example = \<lparr>diffs = [\<lparr>d_player_pos = Some (4, 2), d_stamina = Some 20, d_money = None,
                              d_reputation = None\<rparr>],
                   max_size = 20, base_state = Some gs_example\<rparr>"
  by (simp add: hist_example_def push_def init_history_def make_diff_def gs_moved_def
      gs_example_def empty_diff_def Let_def)

theorem history_diff_undo_witness:
  "base_state hist_example = Some gs_example \<and> max_size hist_example = 20 \<and>
   diffs hist_example \<noteq> [] \<and>
   (\<exists>h'. run_history init_history [Push gs_example, Push gs_moved, Pop] = Inr h' \<and>
         max_size h' = 20 \<and> length (diffs h') \<le> 20) \<and>
   push hist_example gs_example = hist_example \<and>
   pop hist_example =
     Inr (Some (gs_example\<lparr>gs_player_pos := Position 4 2, gs_stamina := 20,
                           gs_delivery_streak := 0\<rparr>),
          hist_example\<lparr>diffs := []\<rparr>)"
  using history_diff_undo[of "[Push gs_example, Push gs_moved, Pop]" hist_example gs_example gs_example]
  by (simp add: hist_example_eq)

text \<open>
  Claim C8 as stated fails: the base snapshot holds a delivery streak of 2, the diff
  says nothing about the streak, and the state \<open>pop\<close> returns has streak 0.
\<close>

theorem pop_resets_streak_counterexample:
  "\<exists>s h'. pop hist_example = Inr (Some s, h') \<and>
      d_player_pos (last (diffs hist_example)) = Some (4, 2) \<and>
      gs_delivery_streak gs_example = 2 \<and> gs_delivery_streak s = 0"
  by (simp add: hist_example_eq pop_def Let_def) (simp add: gs_example_def)

text \<open>
  When \<open>save_game_with_validation\<close> reports success: the goal is not zero, the quotient
  of money and goal is within the range of a float, and the file of the slot can be
  opened for writing.
\<close>

lemma save_succeeds_iff:
  "fst (save_game_with_validation fs gs slot now now_iso) \<longleftrightarrow>
     gs_goal gs \<noteq> 0 \<and>
     \<not> overflows_float (real_of_int (gs_money gs) / real_of_int (gs_goal gs)) \<and>
     can_open_for_writing fs slot"
  by (simp add: save_game_with_validation_def true_div_def)

lemma load_after_save:
  "fst (save_game_with_validation fs gs slot now now_iso) \<Longrightarrow>
   load_game_with_validation (snd (save_game_with_validation fs gs slot now now_iso)) slot =
     Some gs"
  by (auto simp add: save_game_with_validation_def load_game_with_validation_def
      split: sum.splits if_splits)

lemma gs_example_saves:
  "gs_goal gs_example \<noteq> 0"
  "\<not> overflows_float (real_of_int (gs_money gs_example) / real_of_int (gs_goal gs_example))"
  "can_open_for_writing Map.empty 1"
  by (simp_all add: gs_example_def overflows_float_def can_open_for_writing_def)

text \<open>
  Claim C9. The states in question are those the game builds: the goal is 3000 or
  2000, never zero; the money is far inside the range of a float; the save file can be
  written. For every such state the save reports success, and loading the slot then
  returns the very same state: player position, stamina, reputation, money, and the
  width, height, tiles and legend of the map. More generally the slot gives back the
  state whenever the save reports success. On the game object, \<open>save_game\<close> followed by
  \<open>load_game\<close> into any game object restores those eight attributes of the saved game.
\<close>

theorem save_load_roundtrip:
  "(gs_goal gs \<noteq> 0 \<and>
    \<not> overflows_float (real_of_int (gs_money gs) / real_of_int (gs_goal gs)) \<and>
    can_open_for_writing fs slot \<longrightarrow>
      fst (save_game_with_validation fs gs slot now now_iso)) \<and>
   (fst (save_game_with_validation fs gs slot now now_iso) \<longrightarrow>
      load_game_with_validation (snd (save_game_with_validation fs gs slot now now_iso)) slot =
        Some gs \<and>
      (\<forall>gs'. load_game_with_validation
               (snd (save_game_with_validation fs gs slot now now_iso)) slot = Some gs' \<longrightarrow>
         gs_player_pos gs' = gs_player_pos gs \<and> gs_stamina gs' = gs_stamina gs \<and>
         gs_reputation gs' = gs_reputation gs \<and> gs_money gs' = gs_money gs \<and>
         gs_city_width gs' = gs_city_width gs \<and> gs_city_height gs' = gs_city_height gs \<and>
         gs_tiles gs' = gs_tiles gs \<and> gs_legend gs' = gs_legend gs)) \<and>
   (fst (save_game_with_validation fs (snapshot g) slot now now_iso) \<longrightarrow>
      fst (load_game g2 (save_game g fs slot now now_iso) slot) \<and>
      player_pos (snd (load_game g2 (save_game g fs slot now now_iso) slot)) = player_pos g \<and>
      stamina (snd (load_game g2 (save_game g fs slot now now_iso) slot)) = stamina g \<and>
      reputation (snd (load_game g2 (save_game g fs slot now now_iso) slot)) = reputation g \<and>
      money (snd (load_game g2 (save_game g fs slot now now_iso) slot)) = money g \<and>
      city_width (snd (load_game g2 (save_game g fs slot now now_iso) slot)) = city_width g \<and>
      city_height (snd (load_game g2 (save_game g fs slot now now_iso) slot)) = city_height g \<and>
      tiles (snd (load_game g2 (save_game g fs slot now now_iso) slot)) = tiles g \<and>
      legend (snd (load_game g2 (save_game g fs slot now now_iso) slot)) = legend g)"
proof -
  have a: "gs_goal gs \<noteq> 0 \<and>
    \<not> overflows_float (real_of_int (gs_money gs) / real_of_int (gs_goal gs)) \<and>
    can_open_for_writing fs slot \<longrightarrow>
      fst (save_game_with_validation fs gs slot now now_iso)"
    by (simp add: save_succeeds_iff)
  have b: "fst (save_game_with_validation fs gs slot now now_iso) \<longrightarrow>
      load_game_with_validation (snd (save_game_with_validation fs gs slot now now_iso)) slot =
        Some gs \<and>
      (\<forall>gs'. load_game_with_validation
               (snd (save_game_with_validation fs gs slot now now_iso)) slot = Some gs' \<longrightarrow>
         gs_player_pos gs' = gs_player_pos gs \<and> gs_stamina gs' = gs_stamina gs \<and>
         gs_reputation gs' = gs_reputation gs \<and> gs_money gs' = gs_money gs \<and>
         gs_city_width gs' = gs_city_width gs \<and> gs_city_height gs' = gs_city_height gs \<and>
         gs_tiles gs' = gs_tiles gs \<and> gs_legend gs' = gs_legend gs)"
    by (simp add: load_after_save)
  have c: "fst (save_game_with_validation fs (snapshot g) slot now now_iso) \<longrightarrow>
      fst (load_game g2 (save_game g fs slot now now_iso) slot) \<and>
      player_pos (snd (load_game g2 (save_game g fs slot now now_iso) slot)) = player_pos g \<and>
      stamina (snd (load_game g2 (save_game g fs slot now now_iso) slot)) = stamina g \<and>
      reputation (snd (load_game g2 (save_game g fs slot now now_iso) slot)) = reputation g \<and>
      money (snd (load_game g2 (save_game g fs slot now now_iso) slot)) = money g \<and>
      city_width (snd (load_game g2 (save_game g fs slot now now_iso) slot)) = city_width g \<and>
      city_height (snd (load_game g2 (save_game g fs slot now now_iso) slot)) = city_height g \<and>
      tiles (snd (load_game g2 (save_game g fs slot now now_iso) slot)) = tiles g \<and>
      legend (snd (load_game g2 (save_game g fs slot now now_iso) slot)) = legend g"
  proof
    assume s: "fst (save_game_with_validation fs (snapshot g) slot now now_iso)"
    have l: "load_game_with_validation (save_game g fs slot now now_iso) slot =
               Some (snapshot g)"
      unfolding save_game_def by (rule load_after_save[OF s])
    show "fst (load_game g2 (save_game g fs slot now now_iso) slot) \<and>
      player_pos (snd (load_game g2 (save_game g fs slot now now_iso) slot)) = player_pos g \<and>
      stamina (snd (load_game g2 (save_game g fs slot now now_iso) slot)) = stamina g \<and>
      reputation (snd (load_game g2 (save_game g fs slot now now_iso) slot)) = reputation g \<and>
      money (snd (load_game g2 (save_game g fs slot now now_iso) slot)) = money g \<and>
      city_width (snd (load_game g2 (save_game g fs slot now now_iso) slot)) = city_width g \<and>
      city_height (snd (load_game g2 (save_game g fs slot now now_iso) slot)) = city_height g \<and>
      tiles (snd (load_game g2 (save_game g fs slot now now_iso) slot)) = tiles g \<and>
      legend (snd (load_game g2 (save_game g fs slot now now_iso) slot)) = legend g"
      by (simp add: load_game_def l snapshot_def)
  qed
  from a b c show ?thesis by blast
qed

theorem save_load_roundtrip_witness:
  "gs_goal gs_example \<noteq> 0 \<and>
   \<not> overflows_float (real_of_int (gs_money gs_example) / real_of_int (gs_goal gs_example)) \<and>
   can_open_for_writing Map.empty 1 \<and>
   fst (save_game_with_validation Map.empty gs_example 1 0 []) \<and>
   load_game_with_validation (snd (save_game_with_validation Map.empty gs_example 1 0 [])) 1 =
     Some gs_example"
  using save_load_roundtrip[of gs_example Map.empty 1 0 "[]"] gs_example_saves
  by blast

section \<open>Movement\<close>


lemma current_tile_info_nonneg:
  assumes "0 \<le> pos_x (player_pos g)" "0 \<le> pos_y (player_pos g)"
  shows "current_tile_info g = Inr (tile_at g (player_pos g))"
  using assms
  by (auto simp: current_tile_info_def tile_at_def py_index_def bind_err_def Let_def)

lemma calculate_stamina_cost_nonneg:
  assumes "0 \<le> pos_x (player_pos g)" "0 \<le> pos_y (player_pos g)"
  shows "calculate_stamina_cost g =
     Inr (0.5 + 0.2 * real_of_int (max 0 (total_weight g - 3)) +
          (case current_condition (weather_system g) of
             Rain \<Rightarrow> 0.1 | Wind \<Rightarrow> 0.1 | Storm \<Rightarrow> 0.3 | Heat \<Rightarrow> 0.2 | _ \<Rightarrow> 0) +
          (if tile_surface_weight g (player_pos g) < 1
           then (1 - tile_surface_weight g (player_pos g)) * 0.2 else 0))"
  unfolding calculate_stamina_cost_def current_tile_info_nonneg[OF assms]
  by (cases "current_condition (weather_system g)")
     (auto simp: bind_err_def Let_def tile_surface_weight_def get_surface_weight_def max_def
          split: option.splits)

lemma is_valid_move_blocked:
  "in_bounds g pos \<Longrightarrow>
     (pos_y pos < int (length (tiles g)) \<and>
      pos_x pos < int (length (tiles g ! nat (pos_y pos))) \<and>
      get_blocked (legend_get (legend g) (tiles g ! nat (pos_y pos) ! nat (pos_x pos))))
     = tile_blocked g pos"
  by (auto simp: in_bounds_def tile_blocked_def tile_at_def get_blocked_def split: option.splits)

text \<open>
  Claim C3. For a player standing on non-negative coordinates, the cost of a move is
  0.5, plus 0.2 for every weight unit carried above 3, plus the weather add-on (rain and
  wind 0.1, storm 0.3, heat 0.2, otherwise 0), plus (1 - surface weight) * 0.2 when the
  surface weight of the current tile is below 1.0. A move is valid exactly when the
  target is on the board, its tile is not blocked, the stamina is positive and the
  stamina is at least the cost. A valid move sets the position to the target and lowers
  the stamina by the cost, floored at 0.
\<close>

theorem move_validity_and_effect:
  assumes "0 \<le> pos_x (player_pos g)" "0 \<le> pos_y (player_pos g)"
  shows "\<exists>cost.
     cost = 0.5 + 0.2 * real_of_int (max 0 (total_weight g - 3)) +
            (case current_condition (weather_system g) of
               Rain \<Rightarrow> 0.1 | Wind \<Rightarrow> 0.1 | Storm \<Rightarrow> 0.3 | Heat \<Rightarrow> 0.2 | _ \<Rightarrow> 0) +
            (if tile_surface_weight g (player_pos g) < 1
             then (1 - tile_surface_weight g (player_pos g)) * 0.2 else 0) \<and>
     calculate_stamina_cost g = Inr cost \<and>
     is_valid_move g pos =
       Inr (in_bounds g pos \<and> \<not> tile_blocked g pos \<and> stamina g > 0 \<and> stamina g \<ge> cost) \<and>
     (is_valid_move g pos = Inr True \<longrightarrow>
        move_player g pos = Inr (g\<lparr>player_pos := pos, stamina := max 0 (stamina g - cost)\<rparr>))"
proof -
  define cost where "cost = 0.5 + 0.2 * real_of_int (max 0 (total_weight g - 3)) +
            (case current_condition (weather_system g) of
               Rain \<Rightarrow> 0.1 | Wind \<Rightarrow> 0.1 | Storm \<Rightarrow> 0.3 | Heat \<Rightarrow> 0.2 | _ \<Rightarrow> 0) +
            (if tile_surface_weight g (player_pos g) < 1
             then (1 - tile_surface_weight g (player_pos g)) * 0.2 else 0)"
  have c: "calculate_stamina_cost g = Inr cost"
    unfolding cost_def by (rule calculate_stamina_cost_nonneg[OF assms])
  have v: "is_valid_move g pos =
       Inr (in_bounds g pos \<and> \<not> tile_blocked g pos \<and> stamina g > 0 \<and> stamina g \<ge> cost)"
  proof (cases "in_bounds g pos")
    case False
    then show ?thesis by (auto simp: is_valid_move_def in_bounds_def)
  next
    case True
    from True have ib: "0 \<le> pos_x pos \<and> pos_x pos < city_width g \<and> 0 \<le> pos_y pos \<and> pos_y pos < city_height g"
      by (simp add: in_bounds_def)
    show ?thesis
      unfolding is_valid_move_def is_valid_move_blocked[OF True] c
      using True ib by (auto simp: bind_err_def)
  qed
  have m: "is_valid_move g pos = Inr True \<Longrightarrow>
        move_player g pos = Inr (g\<lparr>player_pos := pos, stamina := max 0 (stamina g - cost)\<rparr>)"
    unfolding v move_player_def c by (auto simp: bind_err_def)
  from c v m show ?thesis unfolding cost_def by blast
qed

theorem move_validity_and_effect_witness:
  "0 \<le> pos_x (player_pos game_example) \<and> 0 \<le> pos_y (player_pos game_example) \<and>
   calculate_stamina_cost game_example = Inr 0.5 \<and>
   is_valid_move game_example (Position 3 2) = Inr True \<and>
   move_player game_example (Position 3 2) =
     Inr (game_example\<lparr>player_pos := Position 3 2, stamina := 99.5\<rparr>)"
proof -
  have p: "0 \<le> pos_x (player_pos game_example)" "0 \<le> pos_y (player_pos game_example)"
    by (simp_all add: game_example_def)
  have t: "tile_at game_example (Position 3 2) = Some (the (fallback_legend ''C''))"
       "tile_at game_example (Position 2 2) = Some (the (fallback_legend ''C''))"
    by (simp_all add: tile_at_def game_example_def fallback_tiles_def legend_get_def fallback_legend_def)
  have w: "total_weight game_example = 0" "current_condition (weather_system game_example) = Clear"
     "stamina game_example = 100" "player_pos game_example = Position 2 2"
     "in_bounds game_example (Position 3 2)"
    by (simp_all add: total_weight_def game_example_def init_weather_def in_bounds_def)
  from move_validity_and_effect[OF p, of "Position 3 2"] p show ?thesis
    by (auto simp: t w tile_surface_weight_def tile_blocked_def fallback_legend_def)
qed

section \<open>Delivery: reputation, streak and payout\<close>

lemmas example_defs = game_streak_def game_streak1_def game_streak2_def game_streak3_def
  game_after_late_def game_raise_def game_drop_def game_example_def
  order_late_def order_p_def order_p2_def order_p3_def



lemma reputation_rules_clean: "snd (reputation_rules tr td) = (0 \<le> fst (reputation_rules tr td))"
  by (simp add: reputation_rules_def Let_def)

lemma reputation_rules_values: "fst (reputation_rules tr td) \<in> {5, 3, -2, -5, -10}"
  by (simp add: reputation_rules_def Let_def)

lemma deliver_order_result:
  assumes "order \<in> set (inventory g)"
  shows "\<exists>g'. deliver_order g order = Inr g' \<and>
     reputation g' =
       (let applied = (if rep_delta g order < 0 \<and> reputation g \<ge> 85 \<and> \<not> first_late_penalty_applied g
                       then rep_delta g order div 2 else rep_delta g order);
            r = max 0 (min 100 (reputation g + applied))
        in if 0 \<le> rep_delta g order \<and> last_delivery_was_clean g \<and> delivery_streak g + 1 = 3
           then min 100 (r + 2) else r) \<and>
     delivery_streak g' =
       (if 0 \<le> rep_delta g order \<and> last_delivery_was_clean g
        then (if delivery_streak g + 1 = 3 then 0 else delivery_streak g + 1)
        else if 0 \<le> rep_delta g order then delivery_streak g else 0) \<and>
     last_delivery_was_clean g' = (0 \<le> rep_delta g order) \<and>
     money g' = money g + (if reputation g' \<ge> 90 then py_int (real_of_int (payout order) * 1.05)
                           else payout order)"
  using assms
  by (auto simp: deliver_order_def Let_def rep_delta_def reputation_rules_clean)


text \<open>
  Claim C4. The reputation change the rules assign to a delivery, read as the ordered
  table of the specification: +5 if the time remaining exceeds 0.8 of the total
  duration, else +3 if it exceeds 0.3 of it, else -2 if time remains and at most 30 s
  were used, else -5 if time remains and at most 120 s were used, else -10. The
  comparisons with the time remaining are strict, so a delivery at exactly 0.8 of the
  duration earns +3. \<open>deliver_order\<close> adds this change to the reputation and clamps the
  sum to [0, 100], whenever neither the one-time halving of the first late penalty
  (reputation at least 85) nor the streak bonus applies; so with reputation 70, a
  duration of 100 s and 10 s used the reputation becomes 75.
\<close>

theorem delivery_reputation_tiers:
  "fst (reputation_rules tr td) =
     (if tr > 0.8 * td then 5
      else if tr > 0.3 * td then 3
      else if tr > 0 \<and> td - tr \<le> 30 then -2
      else if tr > 0 \<and> td - tr \<le> 120 then -5
      else -10) \<and>
   (0 < td \<longrightarrow> fst (reputation_rules (0.8 * td) td) = 3) \<and>
   (order \<in> set (inventory g) \<and>
    (0 \<le> rep_delta g order \<or> reputation g < 85 \<or> first_late_penalty_applied g) \<and>
    \<not> (0 \<le> rep_delta g order \<and> last_delivery_was_clean g \<and> delivery_streak g = 2) \<longrightarrow>
      (\<exists>g'. deliver_order g order = Inr g' \<and>
         rep_delta g order =
           fst (reputation_rules (get_order_time_remaining g order) (duration_minutes order * 60)) \<and>
         reputation g' = max 0 (min 100 (reputation g + rep_delta g order))))"
proof (intro conjI impI)
  assume a: "order \<in> set (inventory g) \<and>
    (0 \<le> rep_delta g order \<or> reputation g < 85 \<or> first_late_penalty_applied g) \<and>
    \<not> (0 \<le> rep_delta g order \<and> last_delivery_was_clean g \<and> delivery_streak g = 2)"
  then have "order \<in> set (inventory g)" by simp
  from deliver_order_result[OF this] obtain g' where g': "deliver_order g order = Inr g'"
    "reputation g' =
       (let applied = (if rep_delta g order < 0 \<and> reputation g \<ge> 85 \<and> \<not> first_late_penalty_applied g
                       then rep_delta g order div 2 else rep_delta g order);
            r = max 0 (min 100 (reputation g + applied))
        in if 0 \<le> rep_delta g order \<and> last_delivery_was_clean g \<and> delivery_streak g + 1 = 3
           then min 100 (r + 2) else r)" by blast
  from a g'(2) have "reputation g' = max 0 (min 100 (reputation g + rep_delta g order))"
    by (auto simp: Let_def)
  with g'(1) show "\<exists>g'. deliver_order g order = Inr g' \<and>
         rep_delta g order =
           fst (reputation_rules (get_order_time_remaining g order) (duration_minutes order * 60)) \<and>
         reputation g' = max 0 (min 100 (reputation g + rep_delta g order))"
    by (simp add: rep_delta_def)
qed (auto simp: reputation_rules_def Let_def)

lemma game_scenario_facts:
  "order_100 \<in> set (inventory game_scenario)" "reputation game_scenario = 70"
  "delivery_streak game_scenario = 0" "last_delivery_was_clean game_scenario"
  "get_order_time_remaining game_scenario order_100 = 90" "duration_minutes order_100 * 60 = 100"
  "\<not> first_late_penalty_applied game_scenario"
  by (simp_all add: game_scenario_def game_example_def order_100_def order_p_def
      get_order_time_remaining_def)

theorem delivery_reputation_tiers_witness:
  "(0::real) < 100 \<and> fst (reputation_rules (0.8 * 100) 100) = 3 \<and>
   order_100 \<in> set (inventory game_scenario) \<and> reputation game_scenario = 70 \<and>
   get_order_time_remaining game_scenario order_100 = 90 \<and>
   duration_minutes order_100 * 60 = 100 \<and> rep_delta game_scenario order_100 = 5 \<and>
   (\<exists>g'. deliver_order game_scenario order_100 = Inr g' \<and> reputation g' = 75)"
proof -
  have d: "rep_delta game_scenario order_100 = 5"
    by (simp add: rep_delta_def game_scenario_facts reputation_rules_def)
  show ?thesis
    using delivery_reputation_tiers[where tr = 81 and td = 100 and order = order_100
        and g = game_scenario]
    by (auto simp: game_scenario_facts d)
qed


lemma deliver_order_clean_step:
  assumes d: "deliver_order g order = Inr g'" and c: "0 \<le> rep_delta g order"
    and l: "last_delivery_was_clean g"
  shows "last_delivery_was_clean g' \<and>
     delivery_streak g' = (if delivery_streak g + 1 = 3 then 0 else delivery_streak g + 1) \<and>
     reputation g' = (if delivery_streak g + 1 = 3
                      then min 100 (max 0 (min 100 (reputation g + rep_delta g order)) + 2)
                      else max 0 (min 100 (reputation g + rep_delta g order)))"
proof -
  have "order \<in> set (inventory g)"
    using d by (auto simp: deliver_order_def Let_def split: if_splits)
  from deliver_order_result[OF this] d c l show ?thesis by (auto simp: Let_def)
qed

text \<open>
  Claim C5, as amended. A clean delivery (non-negative change) increments the streak
  only when the previous delivery was clean as well (and no order has expired since);
  a clean delivery after a late one leaves the counter as it is. When the counter
  reaches 3 the reputation gets 2 more points (capped at 100) and the counter returns
  to 0. A delivery that is not clean sets the counter to 0. Hence three clean
  deliveries in a row that start with the counter at 0 and the previous delivery clean
  end with the counter at 0 and with the reputation raised by the three changes plus
  2, capped at 100. Between the deliveries anything may happen that leaves reputation,
  streak and the flag of the last delivery alone.
\<close>

theorem delivery_streak_rules:
  "(order \<in> set (inventory g) \<longrightarrow>
      (\<exists>g'. deliver_order g order = Inr g' \<and>
         delivery_streak g' =
           (if 0 \<le> rep_delta g order \<and> last_delivery_was_clean g
            then (if delivery_streak g + 1 = 3 then 0 else delivery_streak g + 1)
            else if 0 \<le> rep_delta g order then delivery_streak g else 0) \<and>
         last_delivery_was_clean g' = (0 \<le> rep_delta g order) \<and>
         (0 \<le> rep_delta g order \<longrightarrow>
            reputation g' =
              (if last_delivery_was_clean g \<and> delivery_streak g + 1 = 3
               then min 100 (max 0 (min 100 (reputation g + rep_delta g order)) + 2)
               else max 0 (min 100 (reputation g + rep_delta g order)))))) \<and>
   (deliver_order g o1 = Inr g1 \<and> same_standing h1 g1 \<and>
    deliver_order h1 o2 = Inr g2 \<and> same_standing h2 g2 \<and>
    deliver_order h2 o3 = Inr g3 \<and>
    0 \<le> rep_delta g o1 \<and> 0 \<le> rep_delta h1 o2 \<and> 0 \<le> rep_delta h2 o3 \<and>
    delivery_streak g = 0 \<and> last_delivery_was_clean g \<and> 0 \<le> reputation g \<longrightarrow>
      delivery_streak g3 = 0 \<and>
      reputation g3 =
        min 100 (reputation g + rep_delta g o1 + rep_delta h1 o2 + rep_delta h2 o3 + 2))"
proof (intro conjI impI)
  assume "order \<in> set (inventory g)"
  from deliver_order_result[OF this]
  show "\<exists>g'. deliver_order g order = Inr g' \<and>
         delivery_streak g' =
           (if 0 \<le> rep_delta g order \<and> last_delivery_was_clean g
            then (if delivery_streak g + 1 = 3 then 0 else delivery_streak g + 1)
            else if 0 \<le> rep_delta g order then delivery_streak g else 0) \<and>
         last_delivery_was_clean g' = (0 \<le> rep_delta g order) \<and>
         (0 \<le> rep_delta g order \<longrightarrow>
            reputation g' =
              (if last_delivery_was_clean g \<and> delivery_streak g + 1 = 3
               then min 100 (max 0 (min 100 (reputation g + rep_delta g order)) + 2)
               else max 0 (min 100 (reputation g + rep_delta g order))))"
    by (auto simp: Let_def)
next
  assume a: "deliver_order g o1 = Inr g1 \<and> same_standing h1 g1 \<and>
    deliver_order h1 o2 = Inr g2 \<and> same_standing h2 g2 \<and>
    deliver_order h2 o3 = Inr g3 \<and>
    0 \<le> rep_delta g o1 \<and> 0 \<le> rep_delta h1 o2 \<and> 0 \<le> rep_delta h2 o3 \<and>
    delivery_streak g = 0 \<and> last_delivery_was_clean g \<and> 0 \<le> reputation g"
  then have s1: "last_delivery_was_clean g1" "delivery_streak g1 = 1"
      "reputation g1 = max 0 (min 100 (reputation g + rep_delta g o1))"
    using deliver_order_clean_step[of g o1 g1] by auto
  with a have t1: "last_delivery_was_clean h1" "delivery_streak h1 = 1"
      "reputation h1 = max 0 (min 100 (reputation g + rep_delta g o1))"
    by (auto simp: same_standing_def)
  from a t1 have s2: "last_delivery_was_clean g2" "delivery_streak g2 = 2"
      "reputation g2 = max 0 (min 100 (reputation h1 + rep_delta h1 o2))"
    using deliver_order_clean_step[of h1 o2 g2] by auto
  with a have t2: "last_delivery_was_clean h2" "delivery_streak h2 = 2"
      "reputation h2 = max 0 (min 100 (reputation h1 + rep_delta h1 o2))"
    by (auto simp: same_standing_def)
  from a t2 have s3: "delivery_streak g3 = 0"
      "reputation g3 = min 100 (max 0 (min 100 (reputation h2 + rep_delta h2 o3)) + 2)"
    using deliver_order_clean_step[of h2 o3 g3] by auto
  from s3(1) show "delivery_streak g3 = 0" .
  from a s3(2) t2(3) t1(3)
  show "reputation g3 =
        min 100 (reputation g + rep_delta g o1 + rep_delta h1 o2 + rep_delta h2 o3 + 2)"
    by (simp add: min_def max_def)
qed


lemma deliver_all_after_late:
  "deliver_all game_after_late [order_late] =
     Inr (game_after_late\<lparr>reputation := 65, last_delivery_was_clean := False,
            money := 200, inventory := [order_p, order_p2, order_p3],
            completed_orders := [order_late\<lparr>status := delivered\<rparr>]\<rparr>)"
  by (simp add: deliver_order_def bind_err_def game_after_late_def game_example_def
      order_late_def order_p_def order_p2_def order_p3_def get_order_time_remaining_def
      reputation_rules_def py_int_def Let_def)

text \<open>
  Claim C5 as stated fails: after a late delivery the first clean delivery does not
  increment the streak, and three clean deliveries in a row end with the counter at 2
  and without the bonus (reputation 65 + 15 = 80).
\<close>

theorem clean_after_late_counterexample:
  "\<exists>g1 g2 g4.
     deliver_all game_after_late [order_late] = Inr g1 \<and> rep_delta g1 order_p = 5 \<and>
     delivery_streak g1 = 0 \<and> reputation g1 = 65 \<and>
     deliver_order g1 order_p = Inr g2 \<and> delivery_streak g2 = 0 \<and>
     deliver_all g1 [order_p, order_p2, order_p3] = Inr g4 \<and>
     delivery_streak g4 = 2 \<and> reputation g4 = 80"
  by (simp add: deliver_all_after_late)
     (simp add: deliver_order_def bind_err_def game_after_late_def game_example_def
      order_late_def order_p_def order_p2_def order_p3_def get_order_time_remaining_def
      reputation_rules_def py_int_def Let_def rep_delta_def)


lemma game_streak_steps:
  "deliver_order game_streak order_p = Inr game_streak1"
  "deliver_order game_streak1 order_p2 = Inr game_streak2"
  "deliver_order game_streak2 order_p3 = Inr game_streak3"
  by (simp_all add: deliver_order_def example_defs get_order_time_remaining_def
      reputation_rules_def py_int_def Let_def)

lemma game_streak_deltas:
  "rep_delta game_streak order_p = 5" "rep_delta game_streak1 order_p2 = 5"
  "rep_delta game_streak2 order_p3 = 5"
  by (simp_all add: rep_delta_def example_defs get_order_time_remaining_def
      reputation_rules_def Let_def)

theorem delivery_streak_rules_witness:
  "order_p \<in> set (inventory game_streak) \<and>
   deliver_order game_streak order_p = Inr game_streak1 \<and> same_standing game_streak1 game_streak1 \<and>
   deliver_order game_streak1 order_p2 = Inr game_streak2 \<and> same_standing game_streak2 game_streak2 \<and>
   deliver_order game_streak2 order_p3 = Inr game_streak3 \<and>
   rep_delta game_streak order_p = 5 \<and> rep_delta game_streak1 order_p2 = 5 \<and>
   rep_delta game_streak2 order_p3 = 5 \<and>
   delivery_streak game_streak = 0 \<and> last_delivery_was_clean game_streak \<and>
   reputation game_streak = 70 \<and>
   delivery_streak game_streak1 = 1 \<and> delivery_streak game_streak3 = 0 \<and>
   reputation game_streak3 = 87"
proof -
  have pre: "order_p \<in> set (inventory game_streak)" "delivery_streak game_streak = 0"
    "last_delivery_was_clean game_streak" "reputation game_streak = 70"
    "same_standing game_streak1 game_streak1" "same_standing game_streak2 game_streak2"
    by (simp_all add: example_defs same_standing_def)
  from delivery_streak_rules[of order_p game_streak order_p game_streak1 game_streak1
      order_p2 game_streak2 game_streak2 order_p3 game_streak3]
  have "delivery_streak game_streak1 = 1 \<and> delivery_streak game_streak3 = 0 \<and>
        reputation game_streak3 = 87"
    by (simp add: pre game_streak_steps game_streak_deltas)
  with pre show ?thesis by (simp add: game_streak_steps game_streak_deltas)
qed

lemma py_int_nonneg: "0 \<le> r \<Longrightarrow> py_int r = \<lfloor>r\<rfloor>"
  by (simp add: py_int_def)

text \<open>
  Claim C10. The 5 per cent bonus is decided by the reputation after the delivery's
  change and the streak bonus: the money grows by the payout times 1.05, rounded down,
  when that reputation is at least 90, and by the plain payout otherwise. So a
  delivery that lifts the reputation from below 90 to 90 or more pays the bonus, and
  one that drops it from 90 or more to below 90 pays the plain payout. Payouts are
  non-negative.
\<close>

theorem payout_bonus_timing:
  assumes "order \<in> set (inventory g)" and "0 \<le> payout order"
  shows "\<exists>g'. deliver_order g order = Inr g' \<and>
     money g' = money g + (if 90 \<le> reputation g' then \<lfloor>real_of_int (payout order) * 1.05\<rfloor>
                           else payout order) \<and>
     (reputation g < 90 \<and> 90 \<le> reputation g' \<longrightarrow>
        money g' = money g + \<lfloor>real_of_int (payout order) * 1.05\<rfloor>) \<and>
     (90 \<le> reputation g \<and> reputation g' < 90 \<longrightarrow> money g' = money g + payout order)"
proof -
  from deliver_order_result[OF assms(1)] obtain g' where
    d: "deliver_order g order = Inr g'" and
    m: "money g' = money g + (if reputation g' \<ge> 90 then py_int (real_of_int (payout order) * 1.05)
                           else payout order)" by blast
  have "py_int (real_of_int (payout order) * 1.05) = \<lfloor>real_of_int (payout order) * 1.05\<rfloor>"
    using assms(2) by (intro py_int_nonneg) simp
  with d m show ?thesis by auto
qed

lemma bonus_steps:
  "deliver_order game_raise order_p =
     Inr (game_raise\<lparr>reputation := 93, delivery_streak := 1, money := 210,
            inventory := [order_p2, order_p3],
            completed_orders := [order_p\<lparr>status := delivered\<rparr>]\<rparr>)"
  "deliver_order game_drop order_late =
     Inr (game_drop\<lparr>reputation := 87, last_delivery_was_clean := False, money := 200,
            first_late_penalty_applied := True,
            inventory := [order_p, order_p2, order_p3],
            completed_orders := [order_late\<lparr>status := delivered\<rparr>]\<rparr>)"
  by (simp_all add: deliver_order_def example_defs get_order_time_remaining_def
      reputation_rules_def py_int_def Let_def)

theorem payout_bonus_timing_witness:
  "order_p \<in> set (inventory game_raise) \<and> 0 \<le> payout order_p \<and>
   reputation game_raise = 88 \<and> money game_raise = 0 \<and>
   (\<exists>g'. deliver_order game_raise order_p = Inr g' \<and> reputation g' = 93 \<and> money g' = 210) \<and>
   order_late \<in> set (inventory game_drop) \<and> 0 \<le> payout order_late \<and>
   reputation game_drop = 90 \<and> money game_drop = 0 \<and>
   (\<exists>g'. deliver_order game_drop order_late = Inr g' \<and> reputation g' = 87 \<and> money g' = 200)"
proof -
  have a: "order_p \<in> set (inventory game_raise)" "0 \<le> payout order_p"
    "order_late \<in> set (inventory game_drop)" "0 \<le> payout order_late"
    by (simp_all add: example_defs)
  have b: "reputation game_raise = 88" "money game_raise = 0"
    "reputation game_drop = 90" "money game_drop = 0" "payout order_p = 200"
    "payout order_late = 200"
    by (simp_all add: example_defs)
  from payout_bonus_timing[OF a(1,2)] payout_bonus_timing[OF a(3,4)] a b
  show ?thesis by (auto simp: bonus_steps)
qed

section \<open>Releasing orders\<close>


lemma length_enqueue: "length (enqueue items item) = length items + 1"
proof (cases "items = []")
  case True
  then show ?thesis by (simp add: enqueue_def)
next
  case False
  have "enqueue_loop items item 0 (length items) \<le> length items"
    using enqueue_loop_bounds[of 0 "length items" items item] by simp
  with False show ?thesis by (simp add: enqueue_def Let_def)
qed

lemma release_loop_count:
  "release_loop g limit pending items rc ca = (ps, its, rc') \<Longrightarrow>
     ps = drop (min (nat (limit - rc)) (min (length (takeWhile (due g) pending))
                                        (nat (MAX_ACTIVE_ORDERS - ca)))) pending \<and>
     length its = length items + min (nat (limit - rc)) (min (length (takeWhile (due g) pending))
                                        (nat (MAX_ACTIVE_ORDERS - ca))) \<and>
     rc' = rc + int (min (nat (limit - rc)) (min (length (takeWhile (due g) pending))
                                        (nat (MAX_ACTIVE_ORDERS - ca))))"
proof (induction pending arbitrary: items rc ca)
  case Nil
  then show ?case by simp
next
  case (Cons order rest)
  show ?case
  proof (cases "rc < limit \<and> due g order \<and> ca < MAX_ACTIVE_ORDERS")
    case False
    with Cons.prems show ?thesis by (auto simp: due_def)
  next
    case True
    define order2 where "order2 = (if \<not> validate_order_positions g order
                       then fix_order_positions g order else order)\<lparr>status := available, created_at := game_time g\<rparr>"
    from True Cons.prems
    have "release_loop g limit rest (enqueue items order2) (rc + 1) (ca + 1) = (ps, its, rc')"
      by (simp add: due_def order2_def Let_def)
    from Cons.IH[OF this]
    have ih: "ps = drop (min (nat (limit - (rc + 1))) (min (length (takeWhile (due g) rest))
                                        (nat (MAX_ACTIVE_ORDERS - (ca + 1))))) rest"
       "length its = length (enqueue items order2) + min (nat (limit - (rc + 1))) (min (length (takeWhile (due g) rest))
                                        (nat (MAX_ACTIVE_ORDERS - (ca + 1))))"
       "rc' = rc + 1 + int (min (nat (limit - (rc + 1))) (min (length (takeWhile (due g) rest))
                                        (nat (MAX_ACTIVE_ORDERS - (ca + 1)))))"
      by simp_all
    have k: "min (nat (limit - rc)) (min (length (takeWhile (due g) (order # rest)))
                                        (nat (MAX_ACTIVE_ORDERS - ca)))
         = Suc (min (nat (limit - (rc + 1))) (min (length (takeWhile (due g) rest))
                                        (nat (MAX_ACTIVE_ORDERS - (ca + 1)))))"
      using True by (simp add: min_def) linarith
    show ?thesis unfolding k using ih by (simp add: length_enqueue)
  qed
qed

lemma takeWhile_due_sorted:
  "sorted (map release_time pending) \<Longrightarrow> takeWhile (due g) pending = filter (due g) pending"
proof (induction pending)
  case Nil
  then show ?case by simp
next
  case (Cons order rest)
  show ?case
  proof (cases "due g order")
    case True
    with Cons show ?thesis by simp
  next
    case False
    have "\<forall>y\<in>set rest. \<not> due g y"
    proof
      fix y assume "y \<in> set rest"
      with Cons.prems have "release_time order \<le> release_time y" by auto
      with False show "\<not> due g y" unfolding due_def by linarith
    qed
    then have "filter (due g) rest = []" by (simp add: filter_empty_conv)
    with False show ?thesis by simp
  qed
qed


text \<open>
  Claim C6, as amended. With the pending orders sorted by release time and the cap of
  10 active orders, one call of \<open>_process_order_releases\<close> moves the first n pending
  orders into the active queue, where n is the least of the batch size, the number of
  due orders and the room left under the cap. The batch size is 3 when fewer than
  10 // 3 = 3 orders are active, 2 when fewer than 10 // 2 = 5, else 1: the thresholds
  are the integer quotients. The number of active orders never passes the cap. With 12
  due orders and no active order exactly 3 are released.
\<close>

theorem release_throttling:
  assumes "sorted (map release_time (pending_orders g))"
  shows "let active = int (length (available_orders g));
             batch = (if active < MAX_ACTIVE_ORDERS div 3 then 3
                      else if active < MAX_ACTIVE_ORDERS div 2 then 2 else 1);
             room = nat (MAX_ACTIVE_ORDERS - active);
             n = min batch (min (length (filter (due g) (pending_orders g))) room);
             g' = process_order_releases g
         in MAX_ACTIVE_ORDERS = 10 \<and>
            MAX_ACTIVE_ORDERS div 3 = 3 \<and> MAX_ACTIVE_ORDERS div 2 = 5 \<and>
            length (available_orders g') = length (available_orders g) + n \<and>
            pending_orders g' = drop n (pending_orders g) \<and>
            released_count_of g = int n \<and>
            (active \<le> MAX_ACTIVE_ORDERS \<longrightarrow> int (length (available_orders g')) \<le> MAX_ACTIVE_ORDERS) \<and>
            (active = 0 \<and> length (filter (due g) (pending_orders g)) = 12 \<longrightarrow>
               released_count_of g = 3 \<and> length (available_orders g') = 3)"
proof -
  define active where "active = int (length (available_orders g))"
  define k where "k = min (nat (orders_to_release active - 0))
      (min (length (takeWhile (due g) (pending_orders g))) (nat (MAX_ACTIVE_ORDERS - active)))"
  obtain ps its rc' where r: "release_loop g (orders_to_release active) (pending_orders g)
                (available_orders g) 0 active = (ps, its, rc')"
    by (metis prod_cases3)
  from release_loop_count[OF r]
  have res: "ps = drop k (pending_orders g)" "length its = length (available_orders g) + k"
    "rc' = int k"
    by (simp_all add: k_def)
  have g': "pending_orders (process_order_releases g) = ps"
    "available_orders (process_order_releases g) = its"
    "released_count_of g = rc'"
    using r by (simp_all add: process_order_releases_def released_count_of_def Let_def
        active_def)
  have tw: "takeWhile (due g) (pending_orders g) = filter (due g) (pending_orders g)"
    by (rule takeWhile_due_sorted[OF assms])
  have a0: "0 \<le> active" by (simp add: active_def)
  have k_eq: "k = min (if active < MAX_ACTIVE_ORDERS div 3 then 3
                      else if active < MAX_ACTIVE_ORDERS div 2 then 2 else 1)
                  (min (length (filter (due g) (pending_orders g)))
                       (nat (MAX_ACTIVE_ORDERS - active)))"
    unfolding k_def tw using a0
    by (auto simp: orders_to_release_def MAX_ACTIVE_ORDERS_def min_def)
  have k_le: "k \<le> nat (MAX_ACTIVE_ORDERS - active)"
    unfolding k_def by simp
  have cap: "active \<le> MAX_ACTIVE_ORDERS \<Longrightarrow> int (length its) \<le> MAX_ACTIVE_ORDERS"
    using res(2) k_le unfolding active_def by linarith
  have sc: "active = 0 \<Longrightarrow> length (filter (due g) (pending_orders g)) = 12 \<Longrightarrow>
      rc' = 3 \<and> length its = 3"
  proof -
    assume z: "active = 0" and d: "length (filter (due g) (pending_orders g)) = 12"
    then have k3: "k = 3" unfolding k_eq by (simp add: MAX_ACTIVE_ORDERS_def)
    with res z show ?thesis by (simp add: active_def)
  qed
  have e: "active = 0 \<Longrightarrow> available_orders g = []"
    by (simp add: active_def)
  show ?thesis
    unfolding Let_def active_def[symmetric] k_eq[symmetric] g'
    using res cap sc e by (auto simp: MAX_ACTIVE_ORDERS_def)
qed

lemma game_backlog_facts:
  "sorted (map release_time (pending_orders game_backlog))"
  "length (filter (due game_backlog) (pending_orders game_backlog)) = 12"
  "length (available_orders game_backlog) = 0"
  by (simp_all add: game_backlog_def game_example_def backlog_def due_def order_a_def
      )

theorem release_throttling_witness:
  "sorted (map release_time (pending_orders game_backlog)) \<and>
   length (filter (due game_backlog) (pending_orders game_backlog)) = 12 \<and>
   length (available_orders game_backlog) = 0 \<and>
   released_count_of game_backlog = 3 \<and>
   length (available_orders (process_order_releases game_backlog)) = 3 \<and>
   pending_orders (process_order_releases game_backlog) = drop 3 (pending_orders game_backlog)"
  using release_throttling[OF game_backlog_facts(1)]
  by (simp add: game_backlog_facts Let_def MAX_ACTIVE_ORDERS_def)

lemma release_counts:
  fixes g :: CourierQuest
  defines "k \<equiv> min (nat (orders_to_release (int (length (available_orders g)))))
      (min (length (takeWhile (due g) (pending_orders g)))
           (nat (MAX_ACTIVE_ORDERS - int (length (available_orders g)))))"
  shows "released_count_of g = int k"
    and "length (available_orders (process_order_releases g)) = length (available_orders g) + k"
    and "pending_orders (process_order_releases g) = drop k (pending_orders g)"
proof -
  obtain ps its rc' where r:
    "release_loop g (orders_to_release (int (length (available_orders g)))) (pending_orders g)
       (available_orders g) 0 (int (length (available_orders g))) = (ps, its, rc')"
    by (metis prod_cases3)
  from release_loop_count[OF r]
  have res: "ps = drop k (pending_orders g)" "length its = length (available_orders g) + k"
    "rc' = int k"
    by (simp_all add: k_def)
  show "released_count_of g = int k"
    using r res by (simp add: released_count_of_def)
  show "length (available_orders (process_order_releases g)) = length (available_orders g) + k"
    using r res by (simp add: process_order_releases_def Let_def)
  show "pending_orders (process_order_releases g) = drop k (pending_orders g)"
    using r res by (simp add: process_order_releases_def Let_def)
qed

lemma game_three_active_facts:
  "sorted (map release_time (pending_orders game_three_active))"
  "length (filter (due game_three_active) (pending_orders game_three_active)) = 12"
  "length (takeWhile (due game_three_active) (pending_orders game_three_active)) = 12"
  "length (available_orders game_three_active) = 3"
  by (simp_all add: game_three_active_def game_backlog_def game_example_def backlog_def
      due_def order_a_def)

text \<open>
  Claim C6 as stated fails with three active orders. Three is below a third of the cap
  of 10, all 12 pending orders are due and seven places are free under the cap, so the
  claim has a batch of 3 released; the code compares with 10 // 3 = 3, takes the batch
  size 2 and releases 2 orders.
\<close>

theorem three_active_counterexample:
  "length (available_orders game_three_active) = 3 \<and>
   real (length (available_orders game_three_active)) < real_of_int MAX_ACTIVE_ORDERS / 3 \<and>
   sorted (map release_time (pending_orders game_three_active)) \<and>
   length (filter (due game_three_active) (pending_orders game_three_active)) = 12 \<and>
   released_count_of game_three_active = 2 \<and>
   length (available_orders (process_order_releases game_three_active)) = 5 \<and>
   pending_orders (process_order_releases game_three_active) =
     drop 2 (pending_orders game_three_active)"
  by (simp add: release_counts game_three_active_facts orders_to_release_def
      MAX_ACTIVE_ORDERS_def)

section \<open>Expired orders and the reputation bound\<close>

text \<open>
  Claim C2 fails on the code. \<open>deliver_order\<close> clamps the reputation to [0, 100], but
  the expiry sweep subtracts 6 for every expired order without a clamp: with
  reputation 22 and four orders expiring in one sweep the reputation becomes -2.
\<close>

theorem expiry_sweep_below_zero:
  "reputation game_expiry = 22 \<and> length (available_orders game_expiry) = 4 \<and>
   reputation (check_expired_orders game_expiry) = -2 \<and>
   available_orders (check_expired_orders game_expiry) = []"
  by (simp add: check_expired_orders_def expire_step_def expiry_penalty_def game_expiry_def
      game_example_def expired_orders_def order_a_def get_order_time_remaining_def Let_def)

section \<open>Exhaustion\<close>


lemmas engine_defs = handle_input_def calculate_actual_speed_def is_valid_move_def
  move_player_def calculate_stamina_cost_def current_tile_info_def py_index_def bind_err_def
  get_speed_multiplier_def direction_of_def total_weight_def legend_get_def
  get_surface_weight_def get_blocked_def get_rest_bonus_def base_speed_def move_cooldown_def
  update_def weather_update_def process_order_releases_def check_expired_orders_def
  orders_to_release_def MAX_ACTIVE_ORDERS_def get_stamina_recovery_rate_def max_stamina_def
  size_hist_def

lemmas tired_defs = game_tired_def game_exhausted_def game_stuck_def game_resting_def
  game_loaded_def game_example_def
  init_weather_def fallback_tiles_def fallback_legend_def keys_right_def keys_none_def
  frame_def idle_def env_quiet_def

lemma hist_tired_eq:
  "hist_tired =
     \<lparr>diffs = [\<lparr>d_player_pos = Some (3, 2), d_stamina = None, d_money = None,
                  d_reputation = None\<rparr>,
                \<lparr>d_player_pos = Some (4, 2), d_stamina = Some 60, d_money = None,
                  d_reputation = None\<rparr>,
                \<lparr>d_player_pos = Some (4, 2), d_stamina = Some 20, d_money = None,
                  d_reputation = None\<rparr>],
      max_size = 20, base_state = Some (snapshot game_example)\<rparr>"
  by (simp add: hist_tired_def push_def init_history_def make_diff_def snapshot_def
      game_example_def empty_diff_def Let_def)

lemma last_stamina_spent:
  "run_commands (game_tired, fs) (frame # rest) = run_commands (game_exhausted, fs) rest"
  by (simp add: engine_defs tired_defs hist_tired_eq Let_def)

lemma exhausted_stuck:
  "calculate_actual_speed game_exhausted 0 = Inr 0"
  "run_commands (game_exhausted, fs) (frame # rest) = run_commands (game_stuck, fs) rest"
  by (simp_all add: engine_defs tired_defs hist_tired_eq Let_def)

lemma stuck_undo:
  "run_commands (game_stuck, fs) (Undo # rest) =
     run_commands (game_resting 20 0 (662 / 30), fs) rest"
  by (simp add: undo_move_def size_hist_def pop_def bind_err_def tired_defs hist_tired_eq
      snapshot_def Let_def)


lemma handle_input_no_keys:
  "\<not> paused g \<Longrightarrow> \<not> game_over g \<Longrightarrow> 0 < stamina g \<Longrightarrow>
   calculate_actual_speed g t = Inr v \<Longrightarrow>
   handle_input g keys_none dt t = Inr (g\<lparr>last_move_time := last_move_time g + dt\<rparr>)"
  by (simp add: handle_input_def bind_err_def direction_of_def keys_none_def Let_def)

lemma calculate_actual_speed_defined:
  assumes "0 \<le> pos_x (player_pos g)" "0 \<le> pos_y (player_pos g)"
  shows "\<exists>v. calculate_actual_speed g t = Inr v"
proof -
  from current_tile_info_nonneg[OF assms]
  show ?thesis by (simp add: calculate_actual_speed_def bind_err_def Let_def)
qed

lemma resting_update:
  assumes "l \<le> 1" "t \<le> 24"
  shows "update (game_resting s l t) (1 / 30) env_quiet = Inr (game_resting s l (t + 1 / 30))"
  using assms
  by (simp add: engine_defs tired_defs hist_tired_eq Let_def expire_step_def)

lemma resting_facts:
  "\<not> paused (game_resting s l t)" "\<not> game_over (game_resting s l t)"
  "stamina (game_resting s l t) = s" "last_move_time (game_resting s l t) = l"
  "player_pos (game_resting s l t) = Position 4 2"
  "game_state (game_resting s l t) = Playing"
  "(game_resting s l t)\<lparr>last_move_time := l'\<rparr> = game_resting s l' t"
  by (simp_all add: tired_defs)

lemma resting_idle:
  assumes "0 < s" "l + 1 / 30 \<le> 1" "t \<le> 24"
  shows "run_commands (game_resting s l t, fs) (idle # rest) =
     run_commands (game_resting s (l + 1 / 30) (t + 1 / 30), fs) rest"
proof -
  obtain v where v: "calculate_actual_speed (game_resting s l t) 0 = Inr v"
    using calculate_actual_speed_defined[of "game_resting s l t" 0] by (auto simp: resting_facts)
  have h: "handle_input (game_resting s l t) keys_none (1 / 30) 0 =
      Inr (game_resting s (l + 1 / 30) t)"
    using handle_input_no_keys[OF _ _ _ v, of "1 / 30"] assms(1)
    by (simp add: resting_facts)
  show ?thesis
    using h resting_update[OF assms(2,3), of s]
    by (simp add: idle_def env_quiet_def bind_err_def resting_facts)
qed

lemma resting_idles:
  "0 < s \<Longrightarrow> l + real n / 30 \<le> 1 \<Longrightarrow> t + real n / 30 \<le> 24 + 1 / 30 \<Longrightarrow>
   run_commands (game_resting s l t, fs) (replicate n idle @ rest) =
     run_commands (game_resting s (l + real n / 30) (t + real n / 30), fs) rest"
proof (induction n arbitrary: l t)
  case 0
  then show ?case by simp
next
  case (Suc n)
  have a: "l + 1 / 30 \<le> 1" "t \<le> 24" using Suc.prems by (simp_all add: field_simps)
  have b: "l + 1 / 30 + real n / 30 \<le> 1" "t + 1 / 30 + real n / 30 \<le> 24 + 1 / 30"
    using Suc.prems by (simp_all add: field_simps)
  have c: "l + 1 / 30 + real n / 30 = l + real (Suc n) / 30"
    "t + 1 / 30 + real n / 30 = t + real (Suc n) / 30"
    by (simp_all add: field_simps)
  show ?case
    using resting_idle[OF Suc.prems(1) a, of fs "replicate n idle @ rest"]
      Suc.IH[OF Suc.prems(1) b, of ] c
    by simp
qed

lemma rested_regenerates:
  "run_commands (game_resting 20 1 (692 / 30), fs) (idle # rest) =
     run_commands (game_resting (121 / 6) (31 / 30) (693 / 30), fs) rest"
  by (simp add: engine_defs tired_defs hist_tired_eq Let_def)

lemma exhausted_saved_loaded:
  "run_commands (game_stuck, Map.empty) (Save 0 [] # rest) =
     run_commands (game_stuck, saves_stuck) rest"
  "run_commands (game_resting s l t, saves_stuck) (Load # rest) =
     run_commands (game_loaded 0 l (662 / 30), saves_stuck) rest"
  by (simp_all add: saves_stuck_def save_game_def load_game_def save_game_with_validation_def
      load_game_with_validation_def true_div_def overflows_float_def
      can_open_for_writing_def snapshot_def tired_defs)

lemma loaded_regenerates:
  "run_commands (game_loaded 0 (31 / 30) (662 / 30), fs) (frame # rest) =
     run_commands (game_loaded (1 / 6) (31 / 30) (663 / 30), fs) rest"
  "run_commands (game_loaded (1 / 6) (31 / 30) (663 / 30), fs) (frame # rest) =
     run_commands (game_loaded (1 / 3) (32 / 30) (664 / 30), fs) rest"
  "run_commands (game_loaded (1 / 3) (32 / 30) (664 / 30), fs) (frame # rest) =
     run_commands (game_loaded (1 / 2) (33 / 30) (665 / 30), fs) rest"
  by (simp_all add: engine_defs tired_defs hist_tired_eq Let_def)

lemma loaded_moves:
  "run_commands (game_loaded (1 / 2) (33 / 30) (665 / 30), fs) (frame # rest) =
     run_commands ((game_loaded 0 0 (666 / 30))\<lparr>player_pos := Position 7 2\<rparr>, fs) rest"
  by (simp add: engine_defs tired_defs hist_tired_eq Let_def)


lemma thirty_one_idles: "replicate 31 idle = replicate 30 idle @ [idle]"
proof -
  have "replicate (Suc 30) idle = replicate 30 idle @ [idle]"
    by (simp only: replicate_Suc replicate_append_same)
  then show ?thesis by simp
qed

lemma exhausted_recovers_by_load:
  "run_commands (game_stuck, Map.empty) ([Save 0 [], Undo] @ replicate 31 idle @ [Load]) =
     Inr (game_loaded 0 (31 / 30) (662 / 30), saves_stuck)"
proof -
  have "run_commands (game_stuck, Map.empty) ([Save 0 [], Undo] @ replicate 31 idle @ [Load]) =
        run_commands (game_stuck, Map.empty)
          (Save 0 [] # Undo # replicate 30 idle @ idle # [Load])"
    by (simp only: thirty_one_idles append.simps append_assoc)
  also have "\<dots> = run_commands (game_stuck, saves_stuck)
          (Undo # replicate 30 idle @ idle # [Load])"
    by (rule exhausted_saved_loaded(1))
  also have "\<dots> = run_commands (game_resting 20 0 (662 / 30), saves_stuck)
          (replicate 30 idle @ idle # [Load])"
    by (rule stuck_undo)
  also have "\<dots> = run_commands (game_resting 20 (0 + real 30 / 30) (662 / 30 + real 30 / 30),
          saves_stuck) (idle # [Load])"
    by (rule resting_idles) simp_all
  also have "\<dots> = run_commands (game_resting 20 1 (692 / 30), saves_stuck) (idle # [Load])"
    by simp
  also have "\<dots> = run_commands (game_resting (121 / 6) (31 / 30) (693 / 30), saves_stuck) [Load]"
    by (rule rested_regenerates)
  also have "\<dots> = run_commands (game_loaded 0 (31 / 30) (662 / 30), saves_stuck) []"
    by (rule exhausted_saved_loaded(2))
  finally show ?thesis by simp
qed

text \<open>
  Claim C1 fails on the code. The game keeps no record of an exhaustion:
  \<open>handle_input\<close> and \<open>is_valid_move\<close> test only whether the stamina is at most 0 now.
  The courier spends the last 0.5 stamina on a move and is exhausted: the speed is 0,
  the held key moves nothing, and the stamina stays at 0, because the time since the
  last move no longer advances and regeneration waits for it to pass one second. The
  player saves the game, undoes the last state, rests for 31 frames and loads the
  saved game: the courier is exhausted again at (6, 2), but now the second has passed.
  Regeneration lifts the stamina to 0.5 in three frames, and in the fourth frame the
  courier moves to (7, 2), with the stamina far below 30.
\<close>

theorem exhausted_moves_again_below_30:
  "run_commands (game_tired, Map.empty) [frame] = Inr (game_exhausted, Map.empty) \<and>
   stamina game_exhausted = 0 \<and> player_pos game_exhausted = Position 6 2 \<and>
   calculate_actual_speed game_exhausted 0 = Inr 0 \<and>
   run_commands (game_exhausted, Map.empty) [frame] = Inr (game_stuck, Map.empty) \<and>
   stamina game_stuck = 0 \<and> player_pos game_stuck = Position 6 2 \<and>
   run_commands (game_stuck, Map.empty) ([Save 0 [], Undo] @ replicate 31 idle @ [Load]) =
     Inr (game_loaded 0 (31 / 30) (662 / 30), saves_stuck) \<and>
   stamina (game_loaded 0 (31 / 30) (662 / 30)) = 0 \<and>
   player_pos (game_loaded 0 (31 / 30) (662 / 30)) = Position 6 2 \<and>
   run_commands (game_loaded 0 (31 / 30) (662 / 30), saves_stuck) [frame, frame, frame] =
     Inr (game_loaded (1 / 2) (33 / 30) (665 / 30), saves_stuck) \<and>
   stamina (game_loaded (1 / 2) (33 / 30) (665 / 30)) = 1 / 2 \<and>
   run_commands (game_loaded (1 / 2) (33 / 30) (665 / 30), saves_stuck) [frame] =
     Inr ((game_loaded 0 0 (666 / 30))\<lparr>player_pos := Position 7 2\<rparr>, saves_stuck)"
proof -
  have a: "run_commands (game_tired, Map.empty) [frame] = Inr (game_exhausted, Map.empty)"
    by (simp only: last_stamina_spent run_commands.simps(1))
  have b: "run_commands (game_exhausted, Map.empty) [frame] = Inr (game_stuck, Map.empty)"
    by (simp only: exhausted_stuck(2) run_commands.simps(1))
  have c: "run_commands (game_loaded 0 (31 / 30) (662 / 30), saves_stuck) [frame, frame, frame] =
     Inr (game_loaded (1 / 2) (33 / 30) (665 / 30), saves_stuck)"
    by (simp only: loaded_regenerates run_commands.simps(1))
  have d: "run_commands (game_loaded (1 / 2) (33 / 30) (665 / 30), saves_stuck) [frame] =
     Inr ((game_loaded 0 0 (666 / 30))\<lparr>player_pos := Position 7 2\<rparr>, saves_stuck)"
    by (simp only: loaded_moves run_commands.simps(1))
  have e: "stamina game_exhausted = 0" "player_pos game_exhausted = Position 6 2"
    "stamina game_stuck = 0" "player_pos game_stuck = Position 6 2"
    "stamina (game_loaded 0 (31 / 30) (662 / 30)) = 0"
    "player_pos (game_loaded 0 (31 / 30) (662 / 30)) = Position 6 2"
    "stamina (game_loaded (1 / 2) (33 / 30) (665 / 30)) = 1 / 2"
    by (simp_all add: tired_defs)
  from a b c d e exhausted_stuck(1) exhausted_recovers_by_load show ?thesis by blast
qed

end
